theory Spec2Isabelle
  imports Complex_Main
begin

section \<open>Contribution due dates of the bookkeeping backend\<close>

text \<open>
  The handler of \<^verbatim>\<open>GET /api/due-dates/:userId\<close> in \<^verbatim>\<open>src/server.js\<close> (lines 1165 to 1283)
  reads one row of \<^verbatim>\<open>personal_info\<close>, reads the clock with \<^verbatim>\<open>new Date()\<close>, pushes the
  PhilHealth, SSS and Pag-IBIG entries that apply onto an array, filters that array against
  the clock and answers with what is left. This theory embeds the handler and the parts of
  the JavaScript runtime it calls: the calendar arithmetic of \<^verbatim>\<open>Date\<close>, number formatting,
  \<^verbatim>\<open>padStart\<close>, \<^verbatim>\<open>parseInt\<close> and the parsing of a date string.
\<close>

subsection \<open>Time values of the JavaScript \<^verbatim>\<open>Date\<close> object\<close>

text \<open>
  A \<^verbatim>\<open>Date\<close> holds a time value: milliseconds since 1970-01-01T00:00:00Z, an integer of
  magnitude at most \<open>8.64 * 10^15\<close>, or NaN. Every number below is an integer that a double
  holds exactly, so time values are modelled as \<open>int\<close> and NaN as \<open>None\<close>. The definitions
  follow the abstract operations of ECMA-262 (section "Date Objects"), with their names.
\<close>

definition msPerDay :: int where
  "msPerDay = 86400000"

definition Day :: "int \<Rightarrow> int" where
  "Day t = t div msPerDay"

definition DaysInYear :: "int \<Rightarrow> int" where
  "DaysInYear y =
     (if y mod 4 \<noteq> 0 then 365
      else if y mod 100 \<noteq> 0 then 366
      else if y mod 400 \<noteq> 0 then 365
      else 366)"

definition DayFromYear :: "int \<Rightarrow> int" where
  "DayFromYear y =
     365 * (y - 1970) + (y - 1969) div 4 - (y - 1901) div 100 + (y - 1601) div 400"

text \<open>
  ECMA-262 leaves \<open>YearFromTime t\<close> declarative: the largest \<open>y\<close> whose first day is not
  after \<open>t\<close>. It is computed here from the mean length of a year, corrected by at most one;
  lemma \<open>YearFromTime_eqI\<close> below shows that the result is that largest \<open>y\<close>.
\<close>

definition YearFromTime :: "int \<Rightarrow> int" where
  "YearFromTime t =
     (let d = Day t; y = 1970 + (400 * d) div 146097
      in if DayFromYear (y + 1) \<le> d then y + 1
         else if d < DayFromYear y then y - 1
         else y)"

definition InLeapYear :: "int \<Rightarrow> int" where
  "InLeapYear t = (if DaysInYear (YearFromTime t) = 365 then 0 else 1)"

definition DayWithinYear :: "int \<Rightarrow> int" where
  "DayWithinYear t = Day t - DayFromYear (YearFromTime t)"

definition MonthFromTime :: "int \<Rightarrow> int" where
  "MonthFromTime t =
     (let d = DayWithinYear t; l = InLeapYear t
      in if d < 31 then 0
         else if d < 59 + l then 1
         else if d < 90 + l then 2
         else if d < 120 + l then 3
         else if d < 151 + l then 4
         else if d < 181 + l then 5
         else if d < 212 + l then 6
         else if d < 243 + l then 7
         else if d < 273 + l then 8
         else if d < 304 + l then 9
         else if d < 334 + l then 10
         else 11)"

definition DateFromTime :: "int \<Rightarrow> int" where
  "DateFromTime t =
     (let d = DayWithinYear t; l = InLeapYear t; m = MonthFromTime t
      in if m = 0 then d + 1
         else if m = 1 then d - 30
         else if m = 2 then d - 58 - l
         else if m = 3 then d - 89 - l
         else if m = 4 then d - 119 - l
         else if m = 5 then d - 150 - l
         else if m = 6 then d - 180 - l
         else if m = 7 then d - 211 - l
         else if m = 8 then d - 242 - l
         else if m = 9 then d - 272 - l
         else if m = 10 then d - 303 - l
         else d - 333 - l)"

text \<open>
  \<open>MakeDay\<close> is declarative in ECMA-262 as well: the day number of the first day of month
  \<open>mn\<close> of year \<open>ym\<close>, plus \<open>date - 1\<close>. The first day of a month is the first day of its
  year plus the lengths of the months before it.
\<close>

definition DaysBeforeMonth :: "int \<Rightarrow> int \<Rightarrow> int" where
  "DaysBeforeMonth ym mn =
     (let l = (if DaysInYear ym = 365 then 0 else 1)
      in if mn = 0 then 0
         else if mn = 1 then 31
         else if mn = 2 then 59 + l
         else if mn = 3 then 90 + l
         else if mn = 4 then 120 + l
         else if mn = 5 then 151 + l
         else if mn = 6 then 181 + l
         else if mn = 7 then 212 + l
         else if mn = 8 then 243 + l
         else if mn = 9 then 273 + l
         else if mn = 10 then 304 + l
         else 334 + l)"

definition MakeDay :: "int \<Rightarrow> int \<Rightarrow> int \<Rightarrow> int" where
  "MakeDay year month date =
     (let ym = year + month div 12; mn = month mod 12
      in DayFromYear ym + DaysBeforeMonth ym mn + date - 1)"

definition MakeTime :: "int \<Rightarrow> int \<Rightarrow> int \<Rightarrow> int \<Rightarrow> int" where
  "MakeTime hour minute sec ms = hour * 3600000 + minute * 60000 + sec * 1000 + ms"

definition MakeDate :: "int \<Rightarrow> int \<Rightarrow> int" where
  "MakeDate day time = day * msPerDay + time"

definition TimeClip :: "int \<Rightarrow> int option" where
  "TimeClip t = (if \<bar>t\<bar> > 8640000000000000 then None else Some t)"


text \<open>
  What the program does not decide is a parameter, the \<open>host\<close>: the offset of local time
  from UTC in milliseconds, and what the runtime makes of a date string that is not in
  the ECMA-262 date-time format, which the standard leaves to the implementation. The
  offset is one number: a zone without daylight saving, such as Asia/Manila or UTC.
\<close>

record host =
  LocalTZA :: int
  fallback_parse :: "string \<Rightarrow> int option"

definition LocalTime :: "host \<Rightarrow> int \<Rightarrow> int" where
  "LocalTime h t = t + LocalTZA h"

definition UTC :: "host \<Rightarrow> int \<Rightarrow> int" where
  "UTC h t = t - LocalTZA h"

text \<open>
  \<^verbatim>\<open>new Date(year, month, date)\<close>: a year from 0 to 99 means 1900 + year, the fields are
  read in local time, and the result is NaN beyond the range of time values.
\<close>

definition new_Date_fields :: "host \<Rightarrow> int \<Rightarrow> int \<Rightarrow> int \<Rightarrow> int option" where
  "new_Date_fields h y m dt =
     (let yr = (if 0 \<le> y \<and> y \<le> 99 then 1900 + y else y);
          finalDate = MakeDate (MakeDay yr m dt) (MakeTime 0 0 0 0)
      in TimeClip (UTC h finalDate))"

definition getDate :: "host \<Rightarrow> int option \<Rightarrow> int option" where
  "getDate h tv = (case tv of None \<Rightarrow> None | Some t \<Rightarrow> Some (DateFromTime (LocalTime h t)))"

text \<open>
  \<^verbatim>\<open>getMonth\<close> and \<^verbatim>\<open>getFullYear\<close> are only called on \<^verbatim>\<open>now\<close>, the clock reading of
  \<^verbatim>\<open>new Date()\<close>, which is never NaN.
\<close>

definition getMonth :: "host \<Rightarrow> int \<Rightarrow> int" where
  "getMonth h t = MonthFromTime (LocalTime h t)"

definition getFullYear :: "host \<Rightarrow> int \<Rightarrow> int" where
  "getFullYear h t = YearFromTime (LocalTime h t)"

subsection \<open>Strings and numbers\<close>

text \<open>
  Strings are byte strings. \<^verbatim>\<open>String(n)\<close> and a template substitution \<^verbatim>\<open>${n}\<close> write an
  integer in decimal, with a minus sign when negative, and NaN as \<^verbatim>\<open>NaN\<close>. (From
  \<open>10^21\<close> on JavaScript writes an exponent; no year or day here comes near.)
\<close>

fun digits :: "nat \<Rightarrow> string" where
  "digits n =
     (if n < 10 then [''0123456789'' ! n]
      else digits (n div 10) @ [''0123456789'' ! (n mod 10)])"

declare digits.simps [simp del]

definition String_int :: "int \<Rightarrow> string" where
  "String_int i = (if i < 0 then CHR ''-'' # digits (nat (- i)) else digits (nat i))"

definition String_num :: "int option \<Rightarrow> string" where
  "String_num x = (case x of None \<Rightarrow> ''NaN'' | Some i \<Rightarrow> String_int i)"

definition padStart :: "nat \<Rightarrow> char \<Rightarrow> string \<Rightarrow> string" where
  "padStart n c s = replicate (n - length s) c @ s"

text \<open>\<^verbatim>\<open>s.slice(-1)\<close>: the last character of \<open>s\<close> as a string, empty when \<open>s\<close> is.\<close>

definition slice_last :: "string \<Rightarrow> string" where
  "slice_last s = drop (length s - 1) s"

definition is_digit :: "char \<Rightarrow> bool" where
  "is_digit c = (48 \<le> (of_char c :: nat) \<and> (of_char c :: nat) \<le> 57)"

definition is_white_space :: "char \<Rightarrow> bool" where
  "is_white_space c = ((of_char c :: nat) \<in> {9, 10, 11, 12, 13, 32})"

definition decimal_value :: "string \<Rightarrow> int" where
  "decimal_value cs = foldl (\<lambda>acc c. 10 * acc + (int (of_char c) - 48)) 0 cs"

text \<open>
  \<^verbatim>\<open>parseInt(s)\<close> with no radix: leading white space is skipped, then an optional sign,
  then the longest run of decimal digits; NaN when that run is empty. The prefix
  \<^verbatim>\<open>0x\<close>, which switches to radix 16, needs two characters; the handler passes at most
  one, so radix 16 is not modelled.
\<close>

definition parseInt :: "string \<Rightarrow> int option" where
  "parseInt s =
     (let S = dropWhile is_white_space s;
          sign = (if take 1 S = ''-'' then - 1 else 1);
          S' = (if take 1 S = ''+'' \<or> take 1 S = ''-'' then drop 1 S else S);
          Z = takeWhile is_digit S'
      in if Z = [] then None else Some (sign * decimal_value Z))"

text \<open>
  \<^verbatim>\<open>new Date(s)\<close> on a string: the date-only form \<^verbatim>\<open>YYYY-MM-DD\<close> of the ECMA-262 format is
  read as midnight UTC of that day; a string with that shape and a month outside 1 to 12
  or a day outside 1 to 31 is NaN; every other string is left to the host. A day up to 31
  is taken whatever the month, as V8 does; the handler only writes days the month has.
\<close>

definition has_date_shape :: "string \<Rightarrow> bool" where
  "has_date_shape s =
     (length s = 10 \<and> list_all is_digit (take 4 s) \<and> s ! 4 = CHR ''-''
      \<and> list_all is_digit (take 2 (drop 5 s)) \<and> s ! 7 = CHR ''-''
      \<and> list_all is_digit (drop 8 s))"

definition date_fields :: "string \<Rightarrow> int \<times> int \<times> int" where
  "date_fields s =
     (decimal_value (take 4 s), decimal_value (take 2 (drop 5 s)), decimal_value (drop 8 s))"

definition Date_parse :: "host \<Rightarrow> string \<Rightarrow> int option" where
  "Date_parse h s =
     (if has_date_shape s
      then (case date_fields s of
              (Y, M, D) \<Rightarrow>
                if 1 \<le> M \<and> M \<le> 12 \<and> 1 \<le> D \<and> D \<le> 31
                then TimeClip (MakeDate (MakeDay Y (M - 1) D) (MakeTime 0 0 0 0))
                else None)
      else fallback_parse h s)"

text \<open>A comparison with NaN is false.\<close>

definition num_ge :: "int option \<Rightarrow> int \<Rightarrow> bool" where
  "num_ge x k = (case x of None \<Rightarrow> False | Some v \<Rightarrow> k \<le> v)"

definition num_le :: "int option \<Rightarrow> int \<Rightarrow> bool" where
  "num_le x k = (case x of None \<Rightarrow> False | Some v \<Rightarrow> v \<le> k)"

subsection \<open>The handler\<close>

text \<open>
  A row of \<^verbatim>\<open>personal_info\<close>: \<^verbatim>\<open>employment_status\<close> is a nullable
  \<^verbatim>\<open>ENUM('employed', 'self-employed')\<close> and the three membership numbers are nullable
  \<^verbatim>\<open>VARCHAR(20)\<close> columns (server.js, lines 117 to 120), so each arrives as a string or
  as null.
\<close>

record userInfo =
  employment_status :: "string option"
  philhealth_number :: "string option"
  sss_number :: "string option"
  pagibig_number :: "string option"

record dueDateEntry =
  agency :: string
  description :: string
  dueDate :: string
  membershipNumber :: string

definition getLastDayOfMonth :: "host \<Rightarrow> int \<Rightarrow> int \<Rightarrow> int option" where
  "getLastDayOfMonth h y m = getDate h (new_Date_fields h y m 0)"

record ymd =
  year :: int
  month :: int
  day :: int

definition getFirstDayOfNextQuarter :: "int \<Rightarrow> int \<Rightarrow> ymd" where
  "getFirstDayOfNextQuarter y m =
     (let quarter = \<lceil>real_of_int m / 3\<rceil>;
          nextQuarter = (if quarter = 4 then 1 else quarter + 1);
          nextYear = (if quarter = 4 then y + 1 else y);
          firstMonthOfQuarter = (nextQuarter - 1) * 3 + 1
      in \<lparr>year = nextYear, month = firstMonthOfQuarter, day = 1\<rparr>)"

text \<open>Lines 1181 and 1182: the month, counted from 1, and the year of the clock reading.\<close>

definition currentMonth :: "host \<Rightarrow> int \<Rightarrow> int" where
  "currentMonth h now = getMonth h now + 1"

definition currentYear :: "host \<Rightarrow> int \<Rightarrow> int" where
  "currentYear h now = getFullYear h now"

text \<open>
  The three blocks of the handler. Each takes the array \<^verbatim>\<open>dueDates\<close> as it stands and
  returns it with the entries the block pushes. The test \<^verbatim>\<open>if (userInfo.x_number)\<close> is
  false on null and on the empty string.
\<close>

definition philhealth_block :: "host \<Rightarrow> userInfo \<Rightarrow> int \<Rightarrow> dueDateEntry list \<Rightarrow> dueDateEntry list" where
  "philhealth_block h userInfo now dueDates =
     (let currentMonth = currentMonth h now;
          currentYear = currentYear h now
      in case philhealth_number userInfo of
           None \<Rightarrow> dueDates
         | Some number \<Rightarrow>
             if number = [] then dueDates
             else if employment_status userInfo = Some ''employed'' then
               (let lastDigit = parseInt (slice_last number);
                    dueDay = (if num_ge lastDigit 1 \<and> num_le lastDigit 5 then 15 else 20);
                    nextMonth = (if currentMonth = 12 then 1 else currentMonth + 1);
                    dueYear = (if currentMonth = 12 then currentYear + 1 else currentYear)
                in dueDates @
                   [\<lparr>agency = ''PhilHealth'',
                     description = ''PhilHealth contribution payment (Employed) - Form PMRF, ER2'',
                     dueDate = String_int dueYear @ ''-''
                       @ padStart 2 (CHR ''0'') (String_int nextMonth) @ ''-''
                       @ padStart 2 (CHR ''0'') (String_int dueDay),
                     membershipNumber = number\<rparr>])
             else if employment_status userInfo = Some ''self-employed'' then
               (let lastDay = getLastDayOfMonth h currentYear currentMonth
                in dueDates @
                   [\<lparr>agency = ''PhilHealth'',
                     description =
                       ''PhilHealth contribution payment (Self-employed) - Form PMRF, PPP5'',
                     dueDate = String_int currentYear @ ''-''
                       @ padStart 2 (CHR ''0'') (String_int currentMonth) @ ''-''
                       @ padStart 2 (CHR ''0'') (String_num lastDay),
                     membershipNumber = number\<rparr>])
             else dueDates)"

definition sss_block :: "host \<Rightarrow> userInfo \<Rightarrow> int \<Rightarrow> dueDateEntry list \<Rightarrow> dueDateEntry list" where
  "sss_block h userInfo now dueDates =
     (let currentMonth = currentMonth h now;
          currentYear = currentYear h now
      in case sss_number userInfo of
           None \<Rightarrow> dueDates
         | Some number \<Rightarrow>
             if number = [] then dueDates
             else
               (let nextMonth = (if currentMonth = 12 then 1 else currentMonth + 1);
                    dueYear = (if currentMonth = 12 then currentYear + 1 else currentYear);
                    lastDay = getLastDayOfMonth h dueYear nextMonth;
                    forms = (if employment_status userInfo = Some ''employed''
                             then ''Form R-1, R-1A, R-3'' else ''Form RS-1, RS-5'')
                in dueDates @
                   [\<lparr>agency = ''SSS'',
                     description = ''SSS contribution payment (''
                       @ (if employment_status userInfo = Some ''employed''
                          then ''Employed'' else ''Self-employed'')
                       @ '') - '' @ forms,
                     dueDate = String_int dueYear @ ''-''
                       @ padStart 2 (CHR ''0'') (String_int nextMonth) @ ''-''
                       @ padStart 2 (CHR ''0'') (String_num lastDay),
                     membershipNumber = number\<rparr>]))"

definition pagibig_block :: "host \<Rightarrow> userInfo \<Rightarrow> int \<Rightarrow> dueDateEntry list \<Rightarrow> dueDateEntry list" where
  "pagibig_block h userInfo now dueDates =
     (let currentMonth = currentMonth h now;
          currentYear = currentYear h now
      in case pagibig_number userInfo of
           None \<Rightarrow> dueDates
         | Some number \<Rightarrow>
             if number = [] then dueDates
             else if employment_status userInfo = Some ''employed''
                     \<or> employment_status userInfo = Some ''self-employed'' then
               (let nextMonth = (if currentMonth = 12 then 1 else currentMonth + 1);
                    dueYear = (if currentMonth = 12 then currentYear + 1 else currentYear);
                    forms = (if employment_status userInfo = Some ''employed''
                             then ''Form ER1, MDF, MRS'' else ''Form MDF, POF'');
                    dueDates1 = dueDates @
                      [\<lparr>agency = ''Pag-IBIG'',
                        description = ''Pag-IBIG contribution payment (''
                          @ (if employment_status userInfo = Some ''employed''
                             then ''Employed'' else ''Self-employed'')
                          @ '') - '' @ forms,
                        dueDate = String_int dueYear @ ''-''
                          @ padStart 2 (CHR ''0'') (String_int nextMonth) @ ''-10'',
                        membershipNumber = number\<rparr>]
                in if employment_status userInfo = Some ''self-employed'' then
                     (let nextQuarter = getFirstDayOfNextQuarter currentYear currentMonth
                      in dueDates1 @
                         [\<lparr>agency = ''Pag-IBIG'',
                           description =
                             ''Pag-IBIG contribution payment (Quarterly Option) - Form MDF, POF'',
                           dueDate = String_int (year nextQuarter) @ ''-''
                             @ padStart 2 (CHR ''0'') (String_int (month nextQuarter)) @ ''-''
                             @ padStart 2 (CHR ''0'') (String_int (day nextQuarter)),
                           membershipNumber = number\<rparr>])
                   else dueDates1)
             else dueDates)"

text \<open>The array just before the filter of line 1276.\<close>

definition candidates :: "host \<Rightarrow> userInfo \<Rightarrow> int \<Rightarrow> dueDateEntry list" where
  "candidates h userInfo now =
     pagibig_block h userInfo now (sss_block h userInfo now (philhealth_block h userInfo now []))"

text \<open>
  The filter's test \<^verbatim>\<open>new Date(dueDate.dueDate) >= now\<close> compares two time values, and is
  false when the string does not parse.
\<close>

definition not_before_now :: "host \<Rightarrow> int \<Rightarrow> dueDateEntry \<Rightarrow> bool" where
  "not_before_now h now e =
     (case Date_parse h (dueDate e) of None \<Rightarrow> False | Some t \<Rightarrow> now \<le> t)"

text \<open>
  Lines 1178 to 1279, from the row and the clock to the array that is sent: the
  \<^verbatim>\<open>computeDueDates(profile, asOf)\<close> of the specification.
\<close>

definition computeDueDates :: "host \<Rightarrow> userInfo \<Rightarrow> int \<Rightarrow> dueDateEntry list" where
  "computeDueDates h userInfo now = filter (not_before_now h now) (candidates h userInfo now)"

text \<open>
  The callback of the query: a database error answers with status 500, no row answers
  with an empty list, and otherwise the first row is used.
\<close>

datatype response = Status500 string | Json "dueDateEntry list"

definition due_dates_handler :: "host \<Rightarrow> string + userInfo list \<Rightarrow> int \<Rightarrow> response" where
  "due_dates_handler h query_result now =
     (case query_result of
        Inl err \<Rightarrow> Status500 err
      | Inr results \<Rightarrow>
          (case results of
             [] \<Rightarrow> Json []
           | userInfo # _ \<Rightarrow> Json (computeDueDates h userInfo now)))"


subsection \<open>The handler on untyped values\<close>

text \<open>
  The definitions above give every column its SQL type. JavaScript does not: a field of
  the row is any value, \<^verbatim>\<open>results[0]\<close> is \<^verbatim>\<open>undefined\<close> on an empty array, and reading a
  property of \<^verbatim>\<open>null\<close> or \<^verbatim>\<open>undefined\<close>, or calling a method the value does not have,
  raises a TypeError that nothing in the handler catches. To say when that can happen the
  handler is embedded once more over untyped values, the exception being a result
  (\<open>Inl\<close>). A number stands for what a numeric column would deliver.
\<close>

datatype jsval = JSnull | JSundefined | JSstring string | JSnumber int

datatype js_error = TypeError

record userInfo_js =
  employment_status_js :: jsval
  philhealth_number_js :: jsval
  sss_number_js :: jsval
  pagibig_number_js :: jsval

record dueDateEntry_js =
  agency_js :: string
  description_js :: string
  dueDate_js :: string
  membershipNumber_js :: jsval

text \<open>\<^verbatim>\<open>if (v)\<close>: null, undefined, the empty string and zero are falsy.\<close>

definition ToBoolean :: "jsval \<Rightarrow> bool" where
  "ToBoolean v =
     (case v of
        JSnull \<Rightarrow> False
      | JSundefined \<Rightarrow> False
      | JSstring s \<Rightarrow> s \<noteq> []
      | JSnumber n \<Rightarrow> n \<noteq> 0)"

text \<open>
  \<^verbatim>\<open>v.slice(-1)\<close>: a string has the method; \<^verbatim>\<open>null\<close> and \<^verbatim>\<open>undefined\<close> have no properties
  and a number has no \<^verbatim>\<open>slice\<close>, and the call raises.
\<close>

definition call_slice_last :: "jsval \<Rightarrow> js_error + string" where
  "call_slice_last v =
     (case v of
        JSstring s \<Rightarrow> Inr (slice_last s)
      | JSnull \<Rightarrow> Inl TypeError
      | JSundefined \<Rightarrow> Inl TypeError
      | JSnumber n \<Rightarrow> Inl TypeError)"

text \<open>
  Lines 1199 to 1223. The call of \<^verbatim>\<open>slice\<close> is the one place of the handler where a
  method of a field is called.
\<close>

definition philhealth_block_js ::
  "host \<Rightarrow> userInfo_js \<Rightarrow> int \<Rightarrow> dueDateEntry_js list \<Rightarrow> js_error + dueDateEntry_js list" where
  "philhealth_block_js h userInfo now dueDates =
     (let currentMonth = currentMonth h now;
          currentYear = currentYear h now
      in if ToBoolean (philhealth_number_js userInfo) then
           if employment_status_js userInfo = JSstring ''employed'' then
             (case call_slice_last (philhealth_number_js userInfo) of
                Inl e \<Rightarrow> Inl e
              | Inr lastChar \<Rightarrow>
                  (let lastDigit = parseInt lastChar;
                       dueDay = (if num_ge lastDigit 1 \<and> num_le lastDigit 5 then 15 else 20);
                       nextMonth = (if currentMonth = 12 then 1 else currentMonth + 1);
                       dueYear = (if currentMonth = 12 then currentYear + 1 else currentYear)
                   in Inr (dueDates @
                      [\<lparr>agency_js = ''PhilHealth'',
                        description_js =
                          ''PhilHealth contribution payment (Employed) - Form PMRF, ER2'',
                        dueDate_js = String_int dueYear @ ''-''
                          @ padStart 2 (CHR ''0'') (String_int nextMonth) @ ''-''
                          @ padStart 2 (CHR ''0'') (String_int dueDay),
                        membershipNumber_js = philhealth_number_js userInfo\<rparr>])))
           else if employment_status_js userInfo = JSstring ''self-employed'' then
             (let lastDay = getLastDayOfMonth h currentYear currentMonth
              in Inr (dueDates @
                 [\<lparr>agency_js = ''PhilHealth'',
                   description_js =
                     ''PhilHealth contribution payment (Self-employed) - Form PMRF, PPP5'',
                   dueDate_js = String_int currentYear @ ''-''
                     @ padStart 2 (CHR ''0'') (String_int currentMonth) @ ''-''
                     @ padStart 2 (CHR ''0'') (String_num lastDay),
                   membershipNumber_js = philhealth_number_js userInfo\<rparr>]))
           else Inr dueDates
         else Inr dueDates)"

text \<open>Lines 1226 to 1242 and 1245 to 1273: the fields are only tested and copied.\<close>

definition sss_block_js ::
  "host \<Rightarrow> userInfo_js \<Rightarrow> int \<Rightarrow> dueDateEntry_js list \<Rightarrow> dueDateEntry_js list" where
  "sss_block_js h userInfo now dueDates =
     (let currentMonth = currentMonth h now;
          currentYear = currentYear h now
      in if ToBoolean (sss_number_js userInfo) then
           (let nextMonth = (if currentMonth = 12 then 1 else currentMonth + 1);
                dueYear = (if currentMonth = 12 then currentYear + 1 else currentYear);
                lastDay = getLastDayOfMonth h dueYear nextMonth;
                forms = (if employment_status_js userInfo = JSstring ''employed''
                         then ''Form R-1, R-1A, R-3'' else ''Form RS-1, RS-5'')
            in dueDates @
               [\<lparr>agency_js = ''SSS'',
                 description_js = ''SSS contribution payment (''
                   @ (if employment_status_js userInfo = JSstring ''employed''
                      then ''Employed'' else ''Self-employed'')
                   @ '') - '' @ forms,
                 dueDate_js = String_int dueYear @ ''-''
                   @ padStart 2 (CHR ''0'') (String_int nextMonth) @ ''-''
                   @ padStart 2 (CHR ''0'') (String_num lastDay),
                 membershipNumber_js = sss_number_js userInfo\<rparr>])
         else dueDates)"

definition pagibig_block_js ::
  "host \<Rightarrow> userInfo_js \<Rightarrow> int \<Rightarrow> dueDateEntry_js list \<Rightarrow> dueDateEntry_js list" where
  "pagibig_block_js h userInfo now dueDates =
     (let currentMonth = currentMonth h now;
          currentYear = currentYear h now
      in if ToBoolean (pagibig_number_js userInfo) then
           if employment_status_js userInfo = JSstring ''employed''
              \<or> employment_status_js userInfo = JSstring ''self-employed'' then
             (let nextMonth = (if currentMonth = 12 then 1 else currentMonth + 1);
                  dueYear = (if currentMonth = 12 then currentYear + 1 else currentYear);
                  forms = (if employment_status_js userInfo = JSstring ''employed''
                           then ''Form ER1, MDF, MRS'' else ''Form MDF, POF'');
                  dueDates1 = dueDates @
                    [\<lparr>agency_js = ''Pag-IBIG'',
                      description_js = ''Pag-IBIG contribution payment (''
                        @ (if employment_status_js userInfo = JSstring ''employed''
                           then ''Employed'' else ''Self-employed'')
                        @ '') - '' @ forms,
                      dueDate_js = String_int dueYear @ ''-''
                        @ padStart 2 (CHR ''0'') (String_int nextMonth) @ ''-10'',
                      membershipNumber_js = pagibig_number_js userInfo\<rparr>]
              in if employment_status_js userInfo = JSstring ''self-employed'' then
                   (let nextQuarter = getFirstDayOfNextQuarter currentYear currentMonth
                    in dueDates1 @
                       [\<lparr>agency_js = ''Pag-IBIG'',
                         description_js =
                           ''Pag-IBIG contribution payment (Quarterly Option) - Form MDF, POF'',
                         dueDate_js = String_int (year nextQuarter) @ ''-''
                           @ padStart 2 (CHR ''0'') (String_int (month nextQuarter)) @ ''-''
                           @ padStart 2 (CHR ''0'') (String_int (day nextQuarter)),
                         membershipNumber_js = pagibig_number_js userInfo\<rparr>])
                 else dueDates1)
           else dueDates
         else dueDates)"

definition not_before_now_js :: "host \<Rightarrow> int \<Rightarrow> dueDateEntry_js \<Rightarrow> bool" where
  "not_before_now_js h now e =
     (case Date_parse h (dueDate_js e) of None \<Rightarrow> False | Some t \<Rightarrow> now \<le> t)"

text \<open>Lines 1178 to 1279: an exception in the first block ends the computation.\<close>

definition computeDueDates_js ::
  "host \<Rightarrow> userInfo_js \<Rightarrow> int \<Rightarrow> js_error + dueDateEntry_js list" where
  "computeDueDates_js h userInfo now =
     (case philhealth_block_js h userInfo now [] of
        Inl e \<Rightarrow> Inl e
      | Inr dueDates \<Rightarrow>
          Inr (filter (not_before_now_js h now)
                 (pagibig_block_js h userInfo now (sss_block_js h userInfo now dueDates))))"

text \<open>
  The callback of the query. \<^verbatim>\<open>results[0]\<close> is \<^verbatim>\<open>undefined\<close> when there is no row, and the
  first field read of it would raise; the test of \<^verbatim>\<open>results.length\<close> on line 1174 comes
  before.
\<close>

datatype response_js = Status500_js string | Json_js "dueDateEntry_js list"

definition due_dates_handler_js ::
  "host \<Rightarrow> string + userInfo_js list \<Rightarrow> int \<Rightarrow> js_error + response_js" where
  "due_dates_handler_js h query_result now =
     (case query_result of
        Inl err \<Rightarrow> Inr (Status500_js err)
      | Inr results \<Rightarrow>
          if length results = 0 then Inr (Json_js [])
          else (case results of
                  [] \<Rightarrow> Inl TypeError
                | userInfo # _ \<Rightarrow>
                    (case computeDueDates_js h userInfo now of
                       Inl e \<Rightarrow> Inl e
                     | Inr dueDates \<Rightarrow> Inr (Json_js dueDates))))"

text \<open>
  What the driver delivers for a \<^verbatim>\<open>VARCHAR\<close> or \<^verbatim>\<open>ENUM\<close> column is a string or \<^verbatim>\<open>null\<close>
  (\<^verbatim>\<open>undefined\<close> if the column is missing from the row). On such rows the untyped handler
  is related to the typed one by these readings.
\<close>

definition text_column :: "jsval \<Rightarrow> bool" where
  "text_column v =
     (case v of JSnull \<Rightarrow> True | JSundefined \<Rightarrow> True | JSstring s \<Rightarrow> True | JSnumber n \<Rightarrow> False)"

definition text_columns :: "userInfo_js \<Rightarrow> bool" where
  "text_columns r =
     (text_column (employment_status_js r) \<and> text_column (philhealth_number_js r)
      \<and> text_column (sss_number_js r) \<and> text_column (pagibig_number_js r))"

definition column_text :: "jsval \<Rightarrow> string option" where
  "column_text v =
     (case v of JSnull \<Rightarrow> None | JSundefined \<Rightarrow> None | JSstring s \<Rightarrow> Some s | JSnumber n \<Rightarrow> None)"

definition typed_row :: "userInfo_js \<Rightarrow> userInfo" where
  "typed_row r =
     \<lparr>employment_status = column_text (employment_status_js r),
      philhealth_number = column_text (philhealth_number_js r),
      sss_number = column_text (sss_number_js r),
      pagibig_number = column_text (pagibig_number_js r)\<rparr>"

definition untyped_entry :: "dueDateEntry \<Rightarrow> dueDateEntry_js" where
  "untyped_entry e =
     \<lparr>agency_js = agency e, description_js = description e, dueDate_js = dueDate e,
      membershipNumber_js = JSstring (membershipNumber e)\<rparr>"

subsection \<open>The vocabulary of the specification\<close>

text \<open>
  The specification speaks of civil dates, written \<^verbatim>\<open>YYYY-MM-DD\<close>, of the Gregorian length
  of a month, of calendar quarters and of the kinds of entry. These definitions follow its
  words; the theorems below relate them to the handler.
\<close>

definition iso_date :: "int \<Rightarrow> int \<Rightarrow> int \<Rightarrow> string" where
  "iso_date y m d =
     String_int y @ ''-'' @ padStart 2 (CHR ''0'') (String_int m) @ ''-''
       @ padStart 2 (CHR ''0'') (String_int d)"

definition leap_year :: "int \<Rightarrow> bool" where
  "leap_year y = (if y mod 400 = 0 then True else if y mod 100 = 0 then False else y mod 4 = 0)"

definition days_in_month :: "int \<Rightarrow> int \<Rightarrow> int" where
  "days_in_month y m =
     (if m = 2 then (if leap_year y then 29 else 28)
      else if m = 4 then 30 else if m = 6 then 30 else if m = 9 then 30 else if m = 11 then 30
      else 31)"

text \<open>
  The theorems about the last day of a month are stated for a clock whose local year is
  from 100 to 275758 and a zone offset of at most a day. Below year 100 the constructor
  \<^verbatim>\<open>new Date(year, month, 0)\<close> reads the year as 1900 + year; in 275760 the time values end;
  ECMA-262 keeps zone offsets under 24 hours.
\<close>

definition clock_in_range :: "host \<Rightarrow> int \<Rightarrow> bool" where
  "clock_in_range h now =
     (100 \<le> currentYear h now \<and> currentYear h now \<le> 275758
      \<and> - msPerDay \<le> LocalTZA h \<and> LocalTZA h \<le> msPerDay)"

text \<open>
  Hosts for the examples: one on Philippine time, eight hours east of UTC, one on UTC and
  one west of it. None makes anything of a string that is not in the date format.
\<close>

definition Manila :: host where
  "Manila = \<lparr>LocalTZA = 28800000, fallback_parse = (\<lambda>s. None)\<rparr>"

definition UTC_host :: host where
  "UTC_host = \<lparr>LocalTZA = 0, fallback_parse = (\<lambda>s. None)\<rparr>"

text \<open>A host five hours west of UTC all year, as in Lima or Bogota.\<close>

definition Lima :: host where
  "Lima = \<lparr>LocalTZA = - 18000000, fallback_parse = (\<lambda>s. None)\<rparr>"

text \<open>
  The theorems about the answer, after the filter, are stated for a clock whose local
  year is from 1000 to 9998, so that this year and the next are written with four digits
  and every date the handler writes is in the date format, and for a zone offset of at
  most a day.
\<close>

definition four_digit_years :: "host \<Rightarrow> int \<Rightarrow> bool" where
  "four_digit_years h now =
     (1000 \<le> currentYear h now \<and> currentYear h now \<le> 9998
      \<and> - msPerDay \<le> LocalTZA h \<and> LocalTZA h \<le> msPerDay)"

text \<open>
  The filter as the specification words it: by civil dates alone, an entry going when its
  due date is strictly before the date the clock shows in local time.
\<close>

definition asOf_date :: "host \<Rightarrow> int \<Rightarrow> int \<times> int \<times> int" where
  "asOf_date h now = (currentYear h now, currentMonth h now, DateFromTime (LocalTime h now))"

fun date_before :: "int \<times> int \<times> int \<Rightarrow> int \<times> int \<times> int \<Rightarrow> bool" where
  "date_before (y1, m1, d1) (y2, m2, d2) =
     (y1 < y2 \<or> (y1 = y2 \<and> (m1 < m2 \<or> (m1 = m2 \<and> d1 < d2))))"

definition drop_past_dates :: "host \<Rightarrow> int \<Rightarrow> dueDateEntry list \<Rightarrow> dueDateEntry list" where
  "drop_past_dates h now ds =
     filter (\<lambda>e. \<not> date_before (date_fields (dueDate e)) (asOf_date h now)) ds"

definition quarter_of :: "int \<Rightarrow> int" where
  "quarter_of m = (if m \<le> 3 then 1 else if m \<le> 6 then 2 else if m \<le> 9 then 3 else 4)"

definition of_agency :: "string \<Rightarrow> dueDateEntry list \<Rightarrow> dueDateEntry list" where
  "of_agency a ds = filter (\<lambda>e. agency e = a) ds"

definition is_quarterly_option :: "dueDateEntry \<Rightarrow> bool" where
  "is_quarterly_option e =
     (agency e = ''Pag-IBIG''
      \<and> description e = ''Pag-IBIG contribution payment (Quarterly Option) - Form MDF, POF'')"

definition is_pagibig_primary :: "dueDateEntry \<Rightarrow> bool" where
  "is_pagibig_primary e =
     (agency e = ''Pag-IBIG''
      \<and> description e \<noteq> ''Pag-IBIG contribution payment (Quarterly Option) - Form MDF, POF'')"


section \<open>The calendar arithmetic\<close>

subsection \<open>Years\<close>

text \<open>One more year is one more \<open>DaysInYear\<close>: the three divisions step exactly at the leap years.\<close>

lemma div_step:
  fixes x k :: int
  assumes "0 < k"
  shows "(x + 1) div k = x div k + (if (x + 1) mod k = 0 then 1 else 0)"
proof -
  define q r where "q = x div k" and "r = x mod k"
  have x: "x = k * q + r" and r: "0 \<le> r" "r < k"
    using assms by (simp_all add: q_def r_def)
  show ?thesis
  proof (cases "r + 1 = k")
    case True
    then have "x + 1 = k * (q + 1) + 0"
      using x by (simp add: ring_distribs)
    then have "(x + 1) div k = q + 1" "(x + 1) mod k = 0"
      using assms int_div_pos_eq [of "x + 1" k "q + 1" 0]
        int_mod_pos_eq [of "x + 1" k "q + 1" 0] by simp_all
    then show ?thesis by (simp add: q_def)
  next
    case False
    have "x + 1 = k * q + (r + 1)"
      using x by simp
    then have "(x + 1) div k = q" "(x + 1) mod k = r + 1"
      using assms r False int_div_pos_eq [of "x + 1" k q "r + 1"]
        int_mod_pos_eq [of "x + 1" k q "r + 1"] by simp_all
    then show ?thesis using r by (simp add: q_def)
  qed
qed

lemma DayFromYear_Suc: "DayFromYear (y + 1) = DayFromYear y + DaysInYear y"
proof -
  have "(y + (- 492) * 4) mod 4 = y mod 4" by (rule mod_mult_self1)
  then have m4: "(y - 1969 + 1) mod 4 = y mod 4" by simp
  have "(y + (- 19) * 100) mod 100 = y mod 100" by (rule mod_mult_self1)
  then have m100: "(y - 1901 + 1) mod 100 = y mod 100" by simp
  have "(y + (- 4) * 400) mod 400 = y mod 400" by (rule mod_mult_self1)
  then have m400: "(y - 1601 + 1) mod 400 = y mod 400" by simp
  have a: "(y + 1 - 1969) div 4 = (y - 1969) div 4 + (if y mod 4 = 0 then 1 else 0)"
    using div_step [of 4 "y - 1969"] m4 by (simp add: algebra_simps)
  have b: "(y + 1 - 1901) div 100 = (y - 1901) div 100 + (if y mod 100 = 0 then 1 else 0)"
    using div_step [of 100 "y - 1901"] m100 by (simp add: algebra_simps)
  have c: "(y + 1 - 1601) div 400 = (y - 1601) div 400 + (if y mod 400 = 0 then 1 else 0)"
    using div_step [of 400 "y - 1601"] m400 by (simp add: algebra_simps)
  have "(4::int) dvd 100" "(100::int) dvd 400" by simp_all
  then have d: "y mod 100 = 0 \<Longrightarrow> y mod 4 = 0" and e: "y mod 400 = 0 \<Longrightarrow> y mod 100 = 0"
    by (meson dvd_trans mod_eq_0_iff_dvd)+
  show ?thesis
    unfolding DayFromYear_def DaysInYear_def using d e
    by (simp only: a b c) (auto simp: algebra_simps)
qed

lemma DaysInYear_cases: "DaysInYear y = 365 \<or> DaysInYear y = 366"
  by (simp add: DaysInYear_def)

lemma DayFromYear_less_Suc: "DayFromYear y < DayFromYear (y + 1)"
  using DaysInYear_cases [of y] by (auto simp: DayFromYear_Suc)

lemma DayFromYear_mono: "a \<le> b \<Longrightarrow> DayFromYear a \<le> DayFromYear b"
proof (induction b rule: int_ge_induct)
  case base
  show ?case by simp
next
  case (step i)
  then show ?case using DayFromYear_less_Suc [of i] by simp
qed

lemma DayFromYear_mean:
  "146097 * z - 287811596 \<le> 400 * DayFromYear z"
  "400 * DayFromYear z \<le> 146097 * z - 287810501"
proof -
  define A B C where "A = (z - 1969) div 4" and "B = (z - 1901) div 100"
    and "C = (z - 1601) div 400"
  have a: "4 * A \<le> z - 1969" "z - 1969 \<le> 4 * A + 3"
    by (simp_all add: A_def)
  have b: "100 * B \<le> z - 1901" "z - 1901 \<le> 100 * B + 99"
    by (simp_all add: B_def)
  have c: "400 * C \<le> z - 1601" "z - 1601 \<le> 400 * C + 399"
    by (simp_all add: C_def)
  have D: "400 * DayFromYear z = 146000 * z - 287620000 + 400 * A - 400 * B + 400 * C"
    by (simp add: DayFromYear_def A_def B_def C_def)
  show "146097 * z - 287811596 \<le> 400 * DayFromYear z"
    unfolding D using a b c by linarith
  show "400 * DayFromYear z \<le> 146097 * z - 287810501"
    unfolding D using a b c by linarith
qed

lemma YearFromTime_bracket:
  "DayFromYear (YearFromTime t) \<le> Day t" "Day t < DayFromYear (YearFromTime t + 1)"
proof -
  define d where "d = Day t"
  define y where "y = 1970 + (400 * d) div 146097"
  define q where "q = (400 * d) div 146097"
  have "146097 * q \<le> 400 * d" "400 * d < 146097 * q + 146097"
    by (simp_all add: q_def)
  then have e: "146097 * y - 287811090 \<le> 400 * d" "400 * d < 146097 * y - 287664993"
    by (simp_all add: y_def q_def)
  have "146097 * (y + 2) - 287811596 \<le> 400 * DayFromYear (y + 2)"
    by (rule DayFromYear_mean(1))
  then have "146097 * y - 287519402 \<le> 400 * DayFromYear (y + 2)"
    by simp
  then have up: "d < DayFromYear (y + 2)"
    using e by linarith
  have "400 * DayFromYear (y - 1) \<le> 146097 * (y - 1) - 287810501"
    by (rule DayFromYear_mean(2))
  then have "400 * DayFromYear (y - 1) \<le> 146097 * y - 287956598"
    by simp
  then have lo: "DayFromYear (y - 1) \<le> d"
    using e by linarith
  have Y: "YearFromTime t =
     (if DayFromYear (y + 1) \<le> d then y + 1 else if d < DayFromYear y then y - 1 else y)"
    by (simp add: YearFromTime_def Let_def d_def y_def)
  show "DayFromYear (YearFromTime t) \<le> Day t"
    using lo by (simp add: Y d_def [symmetric])
  show "Day t < DayFromYear (YearFromTime t + 1)"
    using up by (simp add: Y d_def [symmetric] add.commute)
qed

lemma YearFromTime_eqI:
  assumes "DayFromYear y \<le> Day t" and "Day t < DayFromYear (y + 1)"
  shows "YearFromTime t = y"
proof (rule ccontr)
  assume "YearFromTime t \<noteq> y"
  then consider "YearFromTime t + 1 \<le> y" | "y + 1 \<le> YearFromTime t" by linarith
  then show False
  proof cases
    case 1
    then show False
      using DayFromYear_mono [of "YearFromTime t + 1" y] YearFromTime_bracket(2) [of t] assms(1)
      by linarith
  next
    case 2
    then show False
      using DayFromYear_mono [of "y + 1" "YearFromTime t"] YearFromTime_bracket(1) [of t] assms(2)
      by linarith
  qed
qed

text \<open>
  So the year computed above is the one ECMA-262 asks for, the largest whose first
  millisecond is not after \<open>t\<close>.
\<close>

lemma Day_le_iff: "d * msPerDay \<le> t \<longleftrightarrow> d \<le> Day t"
proof -
  define q r where "q = t div 86400000" and "r = t mod 86400000"
  have "t = 86400000 * q + r" "0 \<le> r" "r < 86400000"
    by (simp_all add: q_def r_def)
  then have "d * 86400000 \<le> t \<longleftrightarrow> d \<le> q"
    by linarith
  then show ?thesis
    by (simp add: Day_def msPerDay_def q_def)
qed

lemma YearFromTime_largest: "DayFromYear y * msPerDay \<le> t \<longleftrightarrow> y \<le> YearFromTime t"
proof
  assume "DayFromYear y * msPerDay \<le> t"
  then have "DayFromYear y \<le> Day t"
    by (simp add: Day_le_iff)
  then have "DayFromYear y < DayFromYear (YearFromTime t + 1)"
    using YearFromTime_bracket(2) [of t] by linarith
  then have "y < YearFromTime t + 1"
    using DayFromYear_mono [of "YearFromTime t + 1" y] by linarith
  then show "y \<le> YearFromTime t"
    by simp
next
  assume "y \<le> YearFromTime t"
  then have "DayFromYear y \<le> Day t"
    using DayFromYear_mono [of y "YearFromTime t"] YearFromTime_bracket(1) [of t] by linarith
  then show "DayFromYear y * msPerDay \<le> t"
    by (simp add: Day_le_iff)
qed

subsection \<open>Months and days\<close>

lemma Day_MakeDate: "0 \<le> tm \<Longrightarrow> tm < msPerDay \<Longrightarrow> Day (MakeDate d tm) = d"
  unfolding Day_def MakeDate_def msPerDay_def
  by (rule int_div_pos_eq [of _ _ _ tm]) simp_all

lemma DaysInYear_leap: "DaysInYear y = (if leap_year y then 366 else 365)"
proof -
  have "(4::int) dvd 100" "(100::int) dvd 400" by simp_all
  then have d: "y mod 100 = 0 \<Longrightarrow> y mod 4 = 0" and e: "y mod 400 = 0 \<Longrightarrow> y mod 100 = 0"
    by (meson dvd_trans mod_eq_0_iff_dvd)+
  show ?thesis using d e by (auto simp: DaysInYear_def leap_year_def)
qed

text \<open>A time on the \<open>k\<close>-th day of year \<open>y\<close>.\<close>

lemma in_year:
  assumes "Day t = DayFromYear y + k" and "0 \<le> k" and "k < DaysInYear y"
  shows "YearFromTime t = y" and "DayWithinYear t = k"
    and "InLeapYear t = (if leap_year y then 1 else 0)"
proof -
  show Y: "YearFromTime t = y"
    using assms by (intro YearFromTime_eqI) (simp_all add: DayFromYear_Suc)
  show "DayWithinYear t = k"
    using assms(1) by (simp add: DayWithinYear_def Y)
  show "InLeapYear t = (if leap_year y then 1 else 0)"
    by (simp add: InLeapYear_def Y DaysInYear_leap)
qed

lemma MonthFromTime_range: "0 \<le> MonthFromTime t" "MonthFromTime t \<le> 11"
  by (simp_all add: MonthFromTime_def Let_def)

lemma currentMonth_range: "1 \<le> currentMonth h now" "currentMonth h now \<le> 12"
  using MonthFromTime_range [of "LocalTime h now"] by (simp_all add: currentMonth_def getMonth_def)

lemma month_index_cases:
  fixes m :: int
  assumes "0 \<le> m" "m \<le> 11"
  obtains "m = 0" | "m = 1" | "m = 2" | "m = 3" | "m = 4" | "m = 5" | "m = 6"
    | "m = 7" | "m = 8" | "m = 9" | "m = 10" | "m = 11"
proof -
  have "m = 0 \<or> m = 1 \<or> m = 2 \<or> m = 3 \<or> m = 4 \<or> m = 5 \<or> m = 6
      \<or> m = 7 \<or> m = 8 \<or> m = 9 \<or> m = 10 \<or> m = 11"
    using assms by presburger
  then show thesis using that by blast
qed

text \<open>
  \<open>MakeDay\<close> meets its description in ECMA-262: the day it gives for the first of a month
  is in that year and month and has date 1.
\<close>

lemma MakeDay_first_of_month:
  assumes "0 \<le> m" "m \<le> 11" and "Day t = MakeDay y m 1"
  shows "YearFromTime t = y \<and> MonthFromTime t = m \<and> DateFromTime t = 1"
proof -
  define k where "k = DaysBeforeMonth y m"
  have k: "Day t = DayFromYear y + k" "0 \<le> k" "k < DaysInYear y"
    using assms
    by (cases m rule: month_index_cases;
        simp add: k_def MakeDay_def DaysBeforeMonth_def DaysInYear_leap)+
  note Y = in_year [OF k]
  show ?thesis
    using assms(1,2)
    by (cases m rule: month_index_cases)
       (simp_all add: DateFromTime_def MonthFromTime_def Y k_def DaysBeforeMonth_def
          DaysInYear_leap)
qed

lemma month_cases:
  fixes m :: int
  assumes "1 \<le> m" "m \<le> 12"
  obtains "m = 1" | "m = 2" | "m = 3" | "m = 4" | "m = 5" | "m = 6"
    | "m = 7" | "m = 8" | "m = 9" | "m = 10" | "m = 11" | "m = 12"
proof -
  have "m = 1 \<or> m = 2 \<or> m = 3 \<or> m = 4 \<or> m = 5 \<or> m = 6
      \<or> m = 7 \<or> m = 8 \<or> m = 9 \<or> m = 10 \<or> m = 11 \<or> m = 12"
    using assms by presburger
  then show thesis using that by blast
qed

text \<open>
  Day 0 of the month with index \<open>m\<close> is the day before the first of that month: the last
  day of month \<open>m\<close> counted from 1, December included, where the index 12 carries into the
  next year. Its date is the Gregorian length of the month.
\<close>

lemma MakeDay_last:
  assumes "1 \<le> m" "m \<le> 12"
  shows "\<exists>k. MakeDay y m 0 = DayFromYear y + k \<and> 0 \<le> k \<and> k < DaysInYear y
    \<and> k = (if m = 12 then DaysInYear y - 1 else DaysBeforeMonth y m - 1)"
  using assms(1,2)
  by (cases m rule: month_cases)
     (simp_all add: MakeDay_def DaysBeforeMonth_def DayFromYear_Suc DaysInYear_leap)

lemma DateFromTime_last:
  assumes "1 \<le> m" "m \<le> 12" and "Day t = MakeDay y m 0"
  shows "DateFromTime t = days_in_month y m"
proof -
  obtain k where k: "Day t = DayFromYear y + k" "0 \<le> k" "k < DaysInYear y"
    "k = (if m = 12 then DaysInYear y - 1 else DaysBeforeMonth y m - 1)"
    using MakeDay_last [OF assms(1,2), of y] assms(3) by auto
  note Y = in_year [OF k(1-3)]
  show ?thesis
    using assms(1,2)
    by (cases m rule: month_cases)
       (simp_all add: DateFromTime_def MonthFromTime_def Y k(4) DaysBeforeMonth_def
          DaysInYear_leap days_in_month_def)
qed


lemma MakeDay_last_bounds:
  assumes "1 \<le> m" "m \<le> 12" "100 \<le> y" "y \<le> 275759"
  shows "- 683003 \<le> MakeDay y m 0" "MakeDay y m 0 < 99999744"
proof -
  obtain k where k: "MakeDay y m 0 = DayFromYear y + k" "0 \<le> k" "k < DaysInYear y"
    using MakeDay_last [OF assms(1,2), of y] by auto
  have lo: "DayFromYear 100 \<le> DayFromYear y"
    using assms(3) by (rule DayFromYear_mono)
  have hi: "DayFromYear (y + 1) \<le> DayFromYear 275760"
    using assms(4) by (intro DayFromYear_mono) simp
  have e: "DayFromYear 100 = - 683003" "DayFromYear 275760 = 99999744"
    by (simp_all add: DayFromYear_def)
  show "- 683003 \<le> MakeDay y m 0"
    using k lo e by simp
  show "MakeDay y m 0 < 99999744"
    using k hi e by (simp add: DayFromYear_Suc)
qed

lemma getLastDayOfMonth_days_in_month:
  assumes "1 \<le> m" "m \<le> 12" "100 \<le> y" "y \<le> 275759"
    and "- msPerDay \<le> LocalTZA h" "LocalTZA h \<le> msPerDay"
  shows "getLastDayOfMonth h y m = Some (days_in_month y m)"
proof -
  define t where "t = MakeDate (MakeDay y m 0) (MakeTime 0 0 0 0)"
  have t: "t = MakeDay y m 0 * 86400000"
    by (simp add: t_def MakeDate_def MakeTime_def msPerDay_def)
  have "\<bar>UTC h t\<bar> \<le> 8640000000000000"
    using MakeDay_last_bounds [OF assms(1-4)] assms(5,6)
    by (simp add: UTC_def t msPerDay_def)
  then have n: "new_Date_fields h y m 0 = Some (UTC h t)"
    using assms(3) by (simp add: new_Date_fields_def TimeClip_def t_def)
  have "Day (LocalTime h (UTC h t)) = MakeDay y m 0"
    using Day_MakeDate [of 0 "MakeDay y m 0"]
    by (simp add: LocalTime_def UTC_def t_def MakeTime_def msPerDay_def)
  then have "DateFromTime (LocalTime h (UTC h t)) = days_in_month y m"
    using assms(1,2) by (intro DateFromTime_last)
  then show ?thesis
    by (simp add: getLastDayOfMonth_def n getDate_def)
qed

lemma DayWithinYear_range: "0 \<le> DayWithinYear t" "DayWithinYear t < DaysInYear (YearFromTime t)"
  using YearFromTime_bracket [of t] by (simp_all add: DayWithinYear_def DayFromYear_Suc)

lemma InLeapYear_eq: "InLeapYear t = (if leap_year (YearFromTime t) then 1 else 0)"
  by (simp add: InLeapYear_def DaysInYear_leap)

lemma DateFromTime_range: "1 \<le> DateFromTime t" "DateFromTime t \<le> 31"
  using DayWithinYear_range [of t]
  by (simp_all add: DateFromTime_def MonthFromTime_def Let_def InLeapYear_eq DaysInYear_leap
      split: if_splits)

text \<open>Year, month and date of a time give back its day.\<close>

lemma MakeDay_of_fields: "MakeDay (YearFromTime t) (MonthFromTime t) (DateFromTime t) = Day t"
proof -
  have "MonthFromTime t div 12 = 0" "MonthFromTime t mod 12 = MonthFromTime t"
    using MonthFromTime_range [of t] by simp_all
  then have a: "MakeDay (YearFromTime t) (MonthFromTime t) (DateFromTime t)
      = DayFromYear (YearFromTime t) + DaysBeforeMonth (YearFromTime t) (MonthFromTime t)
        + DateFromTime t - 1"
    by (simp add: MakeDay_def Let_def)
  have b: "DaysBeforeMonth (YearFromTime t) (MonthFromTime t) + DateFromTime t - 1
      = DayWithinYear t"
    by (simp add: DaysBeforeMonth_def DateFromTime_def MonthFromTime_def Let_def InLeapYear_def)
  show ?thesis
    using a b by (simp add: DayWithinYear_def)
qed

lemma DaysBeforeMonth_range: "0 \<le> DaysBeforeMonth y m" "DaysBeforeMonth y m \<le> 335"
  by (simp_all add: DaysBeforeMonth_def Let_def)

lemma MakeDay_date: "MakeDay y m d = MakeDay y m 1 + (d - 1)"
  by (simp add: MakeDay_def Let_def)

text \<open>The first day of the next month is later than today.\<close>

lemma today_before_next_month:
  "Day t < MakeDay (YearFromTime t) (MonthFromTime t + 1) 1"
proof (cases "MonthFromTime t = 11")
  case True
  then show ?thesis
    using YearFromTime_bracket(2) [of t]
    by (simp add: MakeDay_def DaysBeforeMonth_def)
next
  case False
  then have "(MonthFromTime t + 1) div 12 = 0" "(MonthFromTime t + 1) mod 12 = MonthFromTime t + 1"
    using MonthFromTime_range [of t] by simp_all
  then have "MakeDay (YearFromTime t) (MonthFromTime t + 1) 1
      = DayFromYear (YearFromTime t) + DaysBeforeMonth (YearFromTime t) (MonthFromTime t + 1)"
    by (simp add: MakeDay_def Let_def)
  moreover have "DayWithinYear t < DaysBeforeMonth (YearFromTime t) (MonthFromTime t + 1)"
    using False
    by (simp add: DaysBeforeMonth_def MonthFromTime_def Let_def InLeapYear_def split: if_splits)
  ultimately show ?thesis
    by (simp add: DayWithinYear_def)
qed

lemma days_in_month_range: "28 \<le> days_in_month y m" "days_in_month y m \<le> 31"
  by (simp_all add: days_in_month_def)

subsection \<open>Next month and next quarter\<close>

lemma next_month:
  fixes m y :: int
  assumes "1 \<le> m" "m \<le> 12"
  shows "(if m = 12 then 1 else m + 1) = m mod 12 + 1" "(if m = 12 then y + 1 else y) = y + m div 12"
  using assms by (cases m rule: month_cases; simp)+

lemma quarter_ceiling:
  fixes m :: int
  assumes "1 \<le> m" "m \<le> 12"
  shows "\<lceil>real_of_int m / 3\<rceil> = quarter_of m"
proof -
  have "\<lceil>real_of_int m / real_of_int 3\<rceil> = - (- m div 3)"
    by (rule ceiling_divide_eq_div)
  then have "\<lceil>real_of_int m / 3\<rceil> = - (- m div 3)"
    by simp
  also have "\<dots> = quarter_of m"
    using assms by (cases m rule: month_cases) (simp_all add: quarter_of_def)
  finally show ?thesis .
qed

lemma next_quarter_not_before_next_month:
  assumes "1 \<le> M" "M \<le> 12"
  shows "MakeDay Y M 1 \<le>
     (if quarter_of M = 4 then MakeDay (Y + 1) (1 - 1) 1
      else MakeDay Y (3 * quarter_of M + 1 - 1) 1)"
  using assms
  by (cases M rule: month_cases)
     (simp_all add: quarter_of_def MakeDay_def DaysBeforeMonth_def DayFromYear_Suc
        DaysInYear_leap)

section \<open>Strings\<close>

lemma String_num_Some: "String_num (Some d) = String_int d"
  by (simp add: String_num_def)

lemma ten: "String_int 10 = ''10''"
  by (simp add: String_int_def digits.simps)

lemma slice_last_nonempty: "n \<noteq> [] \<Longrightarrow> slice_last n = [last n]"
  by (cases n rule: rev_cases) (simp_all add: slice_last_def)

lemma char_code_iff: "c = d \<longleftrightarrow> (of_char c :: nat) = of_char d"
  by simp

lemma parseInt_one_char:
  "parseInt [c] = (if is_digit c then Some (int (of_char c) - 48) else None)"
proof -
  have w: "is_white_space c \<Longrightarrow> \<not> is_digit c"
    by (auto simp: is_white_space_def is_digit_def)
  have s: "c = CHR ''+'' \<or> c = CHR ''-'' \<Longrightarrow> \<not> is_digit c"
    by (auto simp: is_digit_def)
  show ?thesis
    using w s by (auto simp: parseInt_def Let_def decimal_value_def)
qed

lemma one_to_five:
  "(num_ge (parseInt [c]) 1 \<and> num_le (parseInt [c]) 5) = (c \<in> set ''12345'')"
proof -
  have "c \<in> set ''12345'' \<longleftrightarrow> (of_char c :: nat) \<in> {49, 50, 51, 52, 53}"
    by (simp add: char_code_iff [of c])
  also have "\<dots> \<longleftrightarrow> 49 \<le> (of_char c :: nat) \<and> (of_char c :: nat) \<le> 53"
    by auto
  finally show ?thesis
    by (auto simp: parseInt_one_char is_digit_def num_ge_def num_le_def)
qed

subsection \<open>A date written by the handler reads back\<close>

lemma digit_char_code: "k < 10 \<Longrightarrow> (of_char (''0123456789'' ! k) :: nat) = 48 + k"
proof -
  assume "k < 10"
  then have "k = 0 \<or> k = 1 \<or> k = 2 \<or> k = 3 \<or> k = 4 \<or> k = 5 \<or> k = 6 \<or> k = 7
      \<or> k = 8 \<or> k = 9"
    by presburger
  then show ?thesis by auto
qed

lemma decimal_value_snoc:
  "decimal_value (cs @ [c]) = 10 * decimal_value cs + (int (of_char c) - 48)"
  by (simp add: decimal_value_def)

lemma decimal_value_digits: "decimal_value (digits n) = int n"
proof (induction n rule: digits.induct)
  case (1 n)
  show ?case
  proof (cases "n < 10")
    case True
    then show ?thesis
      by (subst digits.simps) (simp add: decimal_value_def digit_char_code)
  next
    case False
    then have "decimal_value (digits (n div 10)) = int (n div 10)"
      by (rule "1.IH")
    then show ?thesis
      using False
      by (subst digits.simps) (simp add: decimal_value_snoc digit_char_code zdiv_int zmod_int)
  qed
qed

lemma is_digit_digits: "list_all is_digit (digits n)"
proof (induction n rule: digits.induct)
  case (1 n)
  show ?case
  proof (cases "n < 10")
    case True
    then show ?thesis
      by (subst digits.simps) (simp add: is_digit_def digit_char_code)
  next
    case False
    then have "list_all is_digit (digits (n div 10))"
      by (rule "1.IH")
    then show ?thesis
      using False by (subst digits.simps) (simp add: is_digit_def digit_char_code)
  qed
qed

lemma length_digits:
  "n < 10 \<Longrightarrow> length (digits n) = 1"
  "10 \<le> n \<Longrightarrow> length (digits n) = Suc (length (digits (n div 10)))"
  by (subst digits.simps, simp)+

lemma length_digits_2: "10 \<le> n \<Longrightarrow> n < 100 \<Longrightarrow> length (digits n) = 2"
  by (simp add: length_digits)

lemma length_digits_4:
  assumes "1000 \<le> n" "n < 10000"
  shows "length (digits n) = 4"
proof -
  have "100 \<le> n div 10" "n div 10 < 1000" using assms by simp_all
  moreover from this have "10 \<le> n div 10 div 10" "n div 10 div 10 < 100" by simp_all
  moreover from this have "n div 10 div 10 div 10 < 10" by simp
  ultimately show ?thesis using assms by (simp add: length_digits)
qed

text \<open>A year of four digits and a month or day of one or two: the fields of the date format.\<close>

lemma year_field:
  assumes "1000 \<le> y" "y \<le> 9999"
  shows "length (String_int y) = 4" "list_all is_digit (String_int y)"
    "decimal_value (String_int y) = y"
  using assms length_digits_4 [of "nat y"]
  by (simp_all add: String_int_def is_digit_digits decimal_value_digits)

lemma two_digit_field:
  assumes "0 \<le> m" "m \<le> 99"
  shows "length (padStart 2 (CHR ''0'') (String_int m)) = 2"
    "list_all is_digit (padStart 2 (CHR ''0'') (String_int m))"
    "decimal_value (padStart 2 (CHR ''0'') (String_int m)) = m"
proof -
  have s: "String_int m = digits (nat m)"
    using assms by (simp add: String_int_def)
  consider "nat m < 10" | "10 \<le> nat m" "nat m < 100"
    using assms by linarith
  then have l: "length (digits (nat m)) = 1 \<or> length (digits (nat m)) = 2"
    by cases (simp_all add: length_digits)
  then show "length (padStart 2 (CHR ''0'') (String_int m)) = 2"
    by (auto simp: padStart_def s)
  show "list_all is_digit (padStart 2 (CHR ''0'') (String_int m))"
    using l by (auto simp: padStart_def s is_digit_digits is_digit_def)
  have "decimal_value (CHR ''0'' # cs) = decimal_value cs" for cs
    by (simp add: decimal_value_def)
  then show "decimal_value (padStart 2 (CHR ''0'') (String_int m)) = m"
    using l assms by (auto simp: padStart_def s decimal_value_digits numeral_2_eq_2)
qed

lemma iso_date_parses:
  assumes "1000 \<le> y" "y \<le> 9999" "0 \<le> m" "m \<le> 99" "0 \<le> d" "d \<le> 99"
  shows "has_date_shape (iso_date y m d)" and "date_fields (iso_date y m d) = (y, m, d)"
proof -
  define Y M D where "Y = String_int y" and "M = padStart 2 (CHR ''0'') (String_int m)"
    and "D = padStart 2 (CHR ''0'') (String_int d)"
  have Y: "length Y = 4" "list_all is_digit Y" "decimal_value Y = y"
    using year_field [OF assms(1,2)] by (simp_all add: Y_def)
  have M: "length M = 2" "list_all is_digit M" "decimal_value M = m"
    using two_digit_field [OF assms(3,4)] by (simp_all add: M_def)
  have D: "length D = 2" "list_all is_digit D" "decimal_value D = d"
    using two_digit_field [OF assms(5,6)] by (simp_all add: D_def)
  have s: "iso_date y m d = Y @ ''-'' @ M @ ''-'' @ D"
    by (simp add: iso_date_def Y_def M_def D_def)
  show "has_date_shape (iso_date y m d)"
    by (simp add: s has_date_shape_def Y M D nth_append)
  show "date_fields (iso_date y m d) = (y, m, d)"
    by (simp add: s date_fields_def Y M D)
qed

lemma Date_parse_iso_date:
  assumes "1000 \<le> y" "y \<le> 9999" "1 \<le> m" "m \<le> 12" "1 \<le> d" "d \<le> 31"
  shows "Date_parse h (iso_date y m d) = Some (MakeDay y (m - 1) d * msPerDay)"
proof -
  have i: "(m - 1) div 12 = 0" "(m - 1) mod 12 = m - 1"
    using assms(3,4) by simp_all
  have "DayFromYear 1000 \<le> DayFromYear y" "DayFromYear y \<le> DayFromYear 9999"
    using assms(1,2) by (simp_all add: DayFromYear_mono)
  moreover have "DayFromYear 1000 = - 354285" "DayFromYear 9999 = 2932532"
    by (simp_all add: DayFromYear_def)
  ultimately have "- 354285 \<le> MakeDay y (m - 1) d" "MakeDay y (m - 1) d \<le> 2932897"
    using DaysBeforeMonth_range [of y "m - 1"] assms(5,6)
    by (simp_all add: MakeDay_def i)
  then have "\<bar>MakeDay y (m - 1) d * 86400000\<bar> \<le> 8640000000000000"
    by linarith
  then have "TimeClip (MakeDate (MakeDay y (m - 1) d) (MakeTime 0 0 0 0))
      = Some (MakeDay y (m - 1) d * msPerDay)"
    by (simp add: TimeClip_def MakeDate_def MakeTime_def msPerDay_def)
  then show ?thesis
    using assms iso_date_parses [of y m d]
    by (simp add: Date_parse_def)
qed

section \<open>The structure of the candidate list\<close>

text \<open>
  Each block appends to the array and looks at nothing in it, so the candidate list is the
  concatenation of what the three blocks push, and the entries of one agency are those of
  its block.
\<close>

lemma philhealth_block_append:
  "philhealth_block h u now ds = ds @ philhealth_block h u now []"
  by (simp add: philhealth_block_def Let_def split: option.splits)

lemma sss_block_append:
  "sss_block h u now ds = ds @ sss_block h u now []"
  by (simp add: sss_block_def Let_def split: option.splits)

lemma pagibig_block_append:
  "pagibig_block h u now ds = ds @ pagibig_block h u now []"
  by (simp add: pagibig_block_def Let_def split: option.splits)

lemma candidates_append:
  "candidates h u now =
     philhealth_block h u now [] @ sss_block h u now [] @ pagibig_block h u now []"
  unfolding candidates_def
  by (subst pagibig_block_append, subst sss_block_append) simp

lemma of_agency_append: "of_agency a (xs @ ys) = of_agency a xs @ of_agency a ys"
  by (simp add: of_agency_def)

lemma philhealth_block_agency:
  "of_agency a (philhealth_block h u now []) =
     (if a = ''PhilHealth'' then philhealth_block h u now [] else [])"
  by (simp add: philhealth_block_def of_agency_def Let_def split: option.splits)

lemma sss_block_agency:
  "of_agency a (sss_block h u now []) = (if a = ''SSS'' then sss_block h u now [] else [])"
  by (simp add: sss_block_def of_agency_def Let_def split: option.splits)

lemma pagibig_block_agency:
  "of_agency a (pagibig_block h u now []) =
     (if a = ''Pag-IBIG'' then pagibig_block h u now [] else [])"
  by (simp add: pagibig_block_def of_agency_def Let_def split: option.splits)

lemma of_agency_candidates:
  "of_agency ''PhilHealth'' (candidates h u now) = philhealth_block h u now []"
  "of_agency ''SSS'' (candidates h u now) = sss_block h u now []"
  "of_agency ''Pag-IBIG'' (candidates h u now) = pagibig_block h u now []"
  by (simp_all add: candidates_append of_agency_append philhealth_block_agency
      sss_block_agency pagibig_block_agency)

lemma length_philhealth_block: "length (philhealth_block h u now []) \<le> 1"
  by (simp add: philhealth_block_def Let_def split: option.splits)

lemma length_sss_block: "length (sss_block h u now []) \<le> 1"
  by (simp add: sss_block_def Let_def split: option.splits)

lemma length_pagibig_block: "length (pagibig_block h u now []) \<le> 2"
  by (simp add: pagibig_block_def Let_def split: option.splits)

lemma of_agency_computeDueDates:
  "of_agency a (computeDueDates h u now) =
     filter (not_before_now h now) (of_agency a (candidates h u now))"
  by (simp add: computeDueDates_def of_agency_def conj_commute)

lemma philhealth_block_empty_number:
  "philhealth_block h (u\<lparr>philhealth_number := Some []\<rparr>) now ds = ds"
  "philhealth_block h (u\<lparr>philhealth_number := None\<rparr>) now ds = ds"
  by (simp_all add: philhealth_block_def)

lemma sss_block_empty_number:
  "sss_block h (u\<lparr>sss_number := Some []\<rparr>) now ds = ds"
  "sss_block h (u\<lparr>sss_number := None\<rparr>) now ds = ds"
  by (simp_all add: sss_block_def)

lemma pagibig_block_empty_number:
  "pagibig_block h (u\<lparr>pagibig_number := Some []\<rparr>) now ds = ds"
  "pagibig_block h (u\<lparr>pagibig_number := None\<rparr>) now ds = ds"
  by (simp_all add: pagibig_block_def)

lemma block_other_fields:
  "philhealth_block h (u\<lparr>sss_number := x\<rparr>) now ds = philhealth_block h u now ds"
  "philhealth_block h (u\<lparr>pagibig_number := x\<rparr>) now ds = philhealth_block h u now ds"
  "sss_block h (u\<lparr>philhealth_number := x\<rparr>) now ds = sss_block h u now ds"
  "sss_block h (u\<lparr>pagibig_number := x\<rparr>) now ds = sss_block h u now ds"
  "pagibig_block h (u\<lparr>philhealth_number := x\<rparr>) now ds = pagibig_block h u now ds"
  "pagibig_block h (u\<lparr>sss_number := x\<rparr>) now ds = pagibig_block h u now ds"
  by (simp_all add: philhealth_block_def sss_block_def pagibig_block_def Let_def
      cong: option.case_cong if_cong)

lemma pagibig_kinds:
  "filter is_pagibig_primary ds =
     filter (\<lambda>e. description e
        \<noteq> ''Pag-IBIG contribution payment (Quarterly Option) - Form MDF, POF'')
       (of_agency ''Pag-IBIG'' ds)"
  "filter is_quarterly_option ds =
     filter (\<lambda>e. description e
        = ''Pag-IBIG contribution payment (Quarterly Option) - Form MDF, POF'')
       (of_agency ''Pag-IBIG'' ds)"
  by (auto simp: of_agency_def is_pagibig_primary_def is_quarterly_option_def intro!: filter_cong)

lemma quarterly_with_primary:
  assumes "q \<in> set (pagibig_block h u now [])" and "is_quarterly_option q"
  shows "\<exists>p \<in> set (pagibig_block h u now []).
           is_pagibig_primary p \<and> membershipNumber p = membershipNumber q"
  using assms
  by (auto simp: pagibig_block_def Let_def is_quarterly_option_def is_pagibig_primary_def
      split: option.splits if_splits)

lemma set_pagibig_block:
  "set (pagibig_block h u now []) = {e \<in> set (candidates h u now). agency e = ''Pag-IBIG''}"
  using of_agency_candidates(3) [of h u now, symmetric] by (simp add: of_agency_def)

section \<open>What the filter keeps\<close>

text \<open>
  An entry due on the date the clock shows: the filter keeps it only while the clock is
  not past midnight UTC of that date, that is, while the local time of day is at most the
  zone offset. On a UTC host that is the one millisecond at midnight.
\<close>

lemma due_today_kept_iff:
  assumes "1000 \<le> currentYear h now" and "currentYear h now \<le> 9999"
    and "asOf_date h now = (y, m, d)" and "dueDate e = iso_date y m d"
  shows "not_before_now h now e \<longleftrightarrow> LocalTime h now mod msPerDay \<le> LocalTZA h"
proof -
  define t where "t = LocalTime h now"
  have f: "y = YearFromTime t" "m = MonthFromTime t + 1" "d = DateFromTime t"
    using assms(3)
    by (simp_all add: asOf_date_def currentYear_def currentMonth_def getFullYear_def
        getMonth_def t_def)
  have "Date_parse h (iso_date y m d) = Some (MakeDay y (m - 1) d * msPerDay)"
    using assms(1,2) MonthFromTime_range [of t] DateFromTime_range [of t]
    by (intro Date_parse_iso_date)
       (simp_all add: f currentYear_def getFullYear_def t_def [symmetric])
  also have "MakeDay y (m - 1) d = Day t"
    by (simp add: f MakeDay_of_fields)
  finally have "not_before_now h now e \<longleftrightarrow> now \<le> Day t * msPerDay"
    by (simp add: not_before_now_def assms(4))
  also have "Day t * msPerDay = t - t mod msPerDay"
    by (simp add: Day_def minus_mod_eq_div_mult)
  finally show ?thesis
    by (auto simp: t_def LocalTime_def)
qed

text \<open>
  An entry due on the second day of the next month or later is kept, in every zone within
  a day of UTC.
\<close>

lemma next_month_kept:
  assumes "1000 \<le> currentYear h now" and "currentYear h now \<le> 9998"
    and "- msPerDay \<le> LocalTZA h"
    and "dueDate e = iso_date (currentYear h now + currentMonth h now div 12)
           (currentMonth h now mod 12 + 1) d"
    and "2 \<le> d" and "d \<le> 31"
  shows "not_before_now h now e"
proof -
  define t where "t = LocalTime h now"
  define Y M where "Y = YearFromTime t" and "M = MonthFromTime t + 1"
  have c: "currentYear h now = Y" "currentMonth h now = M"
    by (simp_all add: currentYear_def currentMonth_def getFullYear_def getMonth_def t_def Y_def
        M_def)
  have M: "1 \<le> M" "M \<le> 12"
    using MonthFromTime_range [of t] by (simp_all add: M_def)
  have "Date_parse h (iso_date (Y + M div 12) (M mod 12 + 1) d)
      = Some (MakeDay (Y + M div 12) (M mod 12 + 1 - 1) d * msPerDay)"
    using assms(1,2,5,6) M by (intro Date_parse_iso_date) (simp_all add: c)
  also have "MakeDay (Y + M div 12) (M mod 12 + 1 - 1) d = MakeDay Y M d"
    by (simp add: MakeDay_def)
  also have "\<dots> = MakeDay Y M 1 + (d - 1)"
    by (rule MakeDay_date)
  finally have p: "Date_parse h (dueDate e) = Some ((MakeDay Y M 1 + (d - 1)) * msPerDay)"
    by (simp add: assms(4) c)
  have "Day t + 1 \<le> MakeDay Y M 1"
    using today_before_next_month [of t] by (simp add: Y_def M_def)
  then have "(Day t + 1) * 86400000 + 86400000 \<le> (MakeDay Y M 1 + (d - 1)) * 86400000"
    using assms(5) by (simp add: algebra_simps)
  moreover have "t < (Day t + 1) * 86400000"
    using pos_mod_bound [of 86400000 t] mult_div_mod_eq [of 86400000 t]
    by (simp add: Day_def msPerDay_def algebra_simps)
  ultimately have "now \<le> (MakeDay Y M 1 + (d - 1)) * msPerDay"
    using assms(3) by (simp add: t_def LocalTime_def msPerDay_def)
  then show ?thesis
    by (simp add: not_before_now_def p)
qed

text \<open>
  On a host at or east of UTC an entry due after today is kept: its midnight UTC is not
  before the end of the local day.
\<close>

lemma later_date_kept:
  assumes "1000 \<le> y" "y \<le> 9999" "1 \<le> m" "m \<le> 12" "1 \<le> d" "d \<le> 31"
    and "dueDate e = iso_date y m d" and "0 \<le> LocalTZA h"
    and "Day (LocalTime h now) < MakeDay y (m - 1) d"
  shows "not_before_now h now e"
proof -
  define t where "t = LocalTime h now"
  have "(Day t + 1) * 86400000 \<le> MakeDay y (m - 1) d * 86400000"
    using assms(9) by (simp add: t_def)
  moreover have "t < (Day t + 1) * 86400000"
    using pos_mod_bound [of 86400000 t] mult_div_mod_eq [of 86400000 t]
    by (simp add: Day_def msPerDay_def algebra_simps)
  ultimately have "now \<le> MakeDay y (m - 1) d * msPerDay"
    using assms(8) by (simp add: t_def LocalTime_def msPerDay_def)
  then show ?thesis
    using Date_parse_iso_date [OF assms(1-6), of h] by (simp add: not_before_now_def assms(7))
qed

lemma dated_next_month:
  "e \<in> set (philhealth_block h u now []) \<Longrightarrow> employment_status u = Some ''employed'' \<Longrightarrow>
     \<exists>d. 2 \<le> d \<and> d \<le> 31 \<and> dueDate e =
       iso_date (currentYear h now + currentMonth h now div 12) (currentMonth h now mod 12 + 1) d"
  "e \<in> set (sss_block h u now []) \<Longrightarrow> clock_in_range h now \<Longrightarrow>
     \<exists>d. 2 \<le> d \<and> d \<le> 31 \<and> dueDate e =
       iso_date (currentYear h now + currentMonth h now div 12) (currentMonth h now mod 12 + 1) d"
  "e \<in> set (pagibig_block h u now []) \<Longrightarrow> is_pagibig_primary e \<Longrightarrow>
     \<exists>d. 2 \<le> d \<and> d \<le> 31 \<and> dueDate e =
       iso_date (currentYear h now + currentMonth h now div 12) (currentMonth h now mod 12 + 1) d"
proof -
  define Y M where "Y = currentYear h now + currentMonth h now div 12"
    and "M = currentMonth h now mod 12 + 1"
  have nm: "currentMonth h now = 12 \<Longrightarrow> M = 1 \<and> Y = currentYear h now + 1"
    "currentMonth h now \<noteq> 12 \<Longrightarrow> M = currentMonth h now + 1 \<and> Y = currentYear h now"
    using next_month [OF currentMonth_range, of h now]
    by (simp_all add: Y_def M_def split: if_splits)
  show "\<exists>d. 2 \<le> d \<and> d \<le> 31 \<and> dueDate e = iso_date Y M d"
    if "e \<in> set (philhealth_block h u now [])" "employment_status u = Some ''employed''"
  proof -
    have "philhealth_block h u now [] =
        (case philhealth_number u of
           None \<Rightarrow> []
         | Some n \<Rightarrow>
             if n = [] then []
             else [\<lparr>agency = ''PhilHealth'',
                    description = ''PhilHealth contribution payment (Employed) - Form PMRF, ER2'',
                    dueDate = iso_date Y M (if last n \<in> set ''12345'' then 15 else 20),
                    membershipNumber = n\<rparr>])"
      using that(2)
      by (simp add: philhealth_block_def Let_def nm iso_date_def slice_last_nonempty one_to_five
          split: option.splits)
    then have "dueDate e = iso_date Y M 15 \<or> dueDate e = iso_date Y M 20"
      using that(1) by (auto split: option.splits if_splits)
    then show ?thesis
      by (elim disjE) (rule exI [of _ 15], simp, rule exI [of _ 20], simp)
  qed
  show "\<exists>d. 2 \<le> d \<and> d \<le> 31 \<and> dueDate e = iso_date Y M d"
    if "e \<in> set (sss_block h u now [])" "clock_in_range h now"
  proof -
    have "1 \<le> M" "M \<le> 12"
      using currentMonth_range [of h now] by (simp_all add: M_def)
    moreover have "100 \<le> Y" "Y \<le> 275759"
      using that(2) nm by (cases "currentMonth h now = 12"; simp add: clock_in_range_def)+
    ultimately have "getLastDayOfMonth h Y M = Some (days_in_month Y M)"
      using that(2) by (intro getLastDayOfMonth_days_in_month) (simp_all add: clock_in_range_def)
    then have "sss_block h u now [] =
        (case sss_number u of
           None \<Rightarrow> []
         | Some n \<Rightarrow>
             if n = [] then []
             else [\<lparr>agency = ''SSS'',
                    description =
                      (if employment_status u = Some ''employed''
                       then ''SSS contribution payment (Employed) - Form R-1, R-1A, R-3''
                       else ''SSS contribution payment (Self-employed) - Form RS-1, RS-5''),
                    dueDate = iso_date Y M (days_in_month Y M),
                    membershipNumber = n\<rparr>])"
      using nm
      by (cases "currentMonth h now = 12";
          simp add: sss_block_def Let_def iso_date_def String_num_Some split: option.splits)
    then have "dueDate e = iso_date Y M (days_in_month Y M)"
      using that(1) by (auto split: option.splits if_splits)
    then show ?thesis
      using days_in_month_range [of Y M] by (intro exI [of _ "days_in_month Y M"]) simp
  qed
  show "\<exists>d. 2 \<le> d \<and> d \<le> 31 \<and> dueDate e = iso_date Y M d"
    if "e \<in> set (pagibig_block h u now [])" "is_pagibig_primary e"
  proof -
    have "filter is_pagibig_primary (pagibig_block h u now []) =
        (case pagibig_number u of
           None \<Rightarrow> []
         | Some n \<Rightarrow>
             if n = [] then []
             else if employment_status u = Some ''employed''
                     \<or> employment_status u = Some ''self-employed''
             then [\<lparr>agency = ''Pag-IBIG'',
                    description =
                      (if employment_status u = Some ''employed''
                       then ''Pag-IBIG contribution payment (Employed) - Form ER1, MDF, MRS''
                       else ''Pag-IBIG contribution payment (Self-employed) - Form MDF, POF''),
                    dueDate = iso_date Y M 10,
                    membershipNumber = n\<rparr>]
             else [])"
      by (simp add: pagibig_block_def Let_def nm iso_date_def ten padStart_def
          is_pagibig_primary_def split: option.splits)
    moreover have "e \<in> set (filter is_pagibig_primary (pagibig_block h u now []))"
      using that by simp
    ultimately have "dueDate e = iso_date Y M 10"
      by (auto split: option.splits if_splits)
    then show ?thesis by (intro exI [of _ 10]) simp
  qed
qed

text \<open>
  So with a clock whose year has four digits, the year after it too, the filter leaves the
  entries due next month in the answer: the PhilHealth entry of an employed member, the
  SSS entry and the primary Pag-IBIG entry.
\<close>

lemma next_month_entries_returned:
  assumes "1000 \<le> currentYear h now" and "currentYear h now \<le> 9998"
    and "- msPerDay \<le> LocalTZA h" and "LocalTZA h \<le> msPerDay"
  shows "employment_status u = Some ''employed'' \<Longrightarrow>
      of_agency ''PhilHealth'' (computeDueDates h u now)
        = of_agency ''PhilHealth'' (candidates h u now)"
    and "of_agency ''SSS'' (computeDueDates h u now) = of_agency ''SSS'' (candidates h u now)"
    and "filter is_pagibig_primary (computeDueDates h u now)
        = filter is_pagibig_primary (candidates h u now)"
proof -
  have c: "clock_in_range h now"
    using assms by (simp add: clock_in_range_def)
  note kept = next_month_kept [OF assms(1-3)]
  show "of_agency ''PhilHealth'' (computeDueDates h u now)
      = of_agency ''PhilHealth'' (candidates h u now)"
    if "employment_status u = Some ''employed''"
    using dated_next_month(1) [OF _ that, of _ h now] kept
    by (simp add: of_agency_computeDueDates of_agency_candidates filter_id_conv) blast
  show "of_agency ''SSS'' (computeDueDates h u now) = of_agency ''SSS'' (candidates h u now)"
    using dated_next_month(2) [OF _ c, of _ u] kept
    by (simp add: of_agency_computeDueDates of_agency_candidates filter_id_conv) blast
  have "filter is_pagibig_primary (computeDueDates h u now)
      = filter (not_before_now h now) (filter is_pagibig_primary (pagibig_block h u now []))"
    by (simp add: pagibig_kinds of_agency_computeDueDates of_agency_candidates
        pagibig_block_agency conj_commute)
  also have "\<dots> = filter is_pagibig_primary (pagibig_block h u now [])"
    using dated_next_month(3) [of _ h u now] kept
    by (intro filter_True) auto
  also have "\<dots> = filter is_pagibig_primary (candidates h u now)"
    by (simp add: pagibig_kinds of_agency_candidates pagibig_block_agency)
  finally show "filter is_pagibig_primary (computeDueDates h u now)
      = filter is_pagibig_primary (candidates h u now)" .
qed

text \<open>On a host at or east of UTC the quarterly option stays in the answer as well.\<close>

lemma quarterly_option_returned:
  assumes "1000 \<le> currentYear h now" and "currentYear h now \<le> 9998"
    and "0 \<le> LocalTZA h"
  shows "filter is_quarterly_option (computeDueDates h u now)
      = filter is_quarterly_option (candidates h u now)"
proof -
  define t where "t = LocalTime h now"
  define Y M where "Y = YearFromTime t" and "M = MonthFromTime t + 1"
  have c: "currentYear h now = Y" "currentMonth h now = M"
    by (simp_all add: currentYear_def currentMonth_def getFullYear_def getMonth_def t_def Y_def
        M_def)
  have M: "1 \<le> M" "M \<le> 12"
    using MonthFromTime_range [of t] by (simp_all add: M_def)
  have today: "Day t < MakeDay Y M 1"
    using today_before_next_month [of t] by (simp add: Y_def M_def)
  have q12: "quarter_of 12 = 4"
    by (simp add: quarter_of_def)
  have kept: "not_before_now h now e"
    if "e \<in> set (filter is_quarterly_option (pagibig_block h u now []))" for e
  proof -
    have "filter is_quarterly_option (pagibig_block h u now []) =
        (case pagibig_number u of
           None \<Rightarrow> []
         | Some n \<Rightarrow>
             if n = [] then []
             else if employment_status u = Some ''self-employed''
             then [\<lparr>agency = ''Pag-IBIG'',
                    description =
                      ''Pag-IBIG contribution payment (Quarterly Option) - Form MDF, POF'',
                    dueDate =
                      (if quarter_of M = 4 then iso_date (Y + 1) 1 1
                       else iso_date Y (3 * quarter_of M + 1) 1),
                    membershipNumber = n\<rparr>]
             else [])"
      using quarter_ceiling [OF M] q12
      by (simp add: pagibig_block_def Let_def c iso_date_def getFirstDayOfNextQuarter_def
          is_quarterly_option_def algebra_simps split: option.splits)
    with that have d: "dueDate e =
        (if quarter_of M = 4 then iso_date (Y + 1) 1 1 else iso_date Y (3 * quarter_of M + 1) 1)"
      by (auto split: option.splits if_splits)
    have q: "1 \<le> quarter_of M" "quarter_of M \<le> 4"
      by (simp_all add: quarter_of_def)
    show ?thesis
    proof (cases "quarter_of M = 4")
      case True
      then have "Day (LocalTime h now) < MakeDay (Y + 1) (1 - 1) 1"
        using today next_quarter_not_before_next_month [OF M, of Y] by (simp add: t_def)
      then show ?thesis
        using assms True d c by (intro later_date_kept [of "Y + 1" 1 1]) simp_all
    next
      case False
      then have "Day (LocalTime h now) < MakeDay Y (3 * quarter_of M + 1 - 1) 1"
        using today next_quarter_not_before_next_month [OF M, of Y] by (simp add: t_def)
      then show ?thesis
        using assms False d c q
        by (intro later_date_kept [of Y "3 * quarter_of M + 1" 1]) simp_all
    qed
  qed
  have "filter is_quarterly_option (computeDueDates h u now)
      = filter (not_before_now h now) (filter is_quarterly_option (pagibig_block h u now []))"
    by (simp add: pagibig_kinds of_agency_computeDueDates of_agency_candidates
        pagibig_block_agency conj_commute)
  also have "\<dots> = filter is_quarterly_option (pagibig_block h u now [])"
    using kept by (intro filter_True) auto
  also have "\<dots> = filter is_quarterly_option (candidates h u now)"
    by (simp add: pagibig_kinds of_agency_candidates pagibig_block_agency)
  finally show ?thesis .
qed

section \<open>The last day of the month and the quarterly option\<close>

lemma LocalTZA_Manila: "LocalTZA Manila = 28800000"
  by (simp add: Manila_def)

text \<open>
  With a PhilHealth number present and status \<^verbatim>\<open>self-employed\<close>, exactly one PhilHealth
  entry is pushed, due on the last day of the month of the clock, the Gregorian length of
  that month: 29 for the February of a leap year. The clock is taken in range (see
  \<open>clock_in_range\<close>).
\<close>

lemma philhealth_self_employed_last_day:
  assumes "philhealth_number u = Some n" and "n \<noteq> []"
    and "employment_status u = Some ''self-employed''" and "clock_in_range h now"
  shows "of_agency ''PhilHealth'' (candidates h u now) =
     [\<lparr>agency = ''PhilHealth'',
       description = ''PhilHealth contribution payment (Self-employed) - Form PMRF, PPP5'',
       dueDate = iso_date (currentYear h now) (currentMonth h now)
         (days_in_month (currentYear h now) (currentMonth h now)),
       membershipNumber = n\<rparr>]"
proof -
  have "getLastDayOfMonth h (currentYear h now) (currentMonth h now)
      = Some (days_in_month (currentYear h now) (currentMonth h now))"
    using assms(4) currentMonth_range [of h now]
    by (intro getLastDayOfMonth_days_in_month) (simp_all add: clock_in_range_def)
  then show ?thesis
    using assms(1-3)
    by (simp add: of_agency_candidates philhealth_block_def iso_date_def String_num_Some Let_def)
qed

text \<open>On 2024-02-10, at 09:30 in Manila, the entry pushed is due 2024-02-29.\<close>

lemma philhealth_self_employed_last_day_example:
  "clock_in_range Manila 1707528600000
   \<and> of_agency ''PhilHealth''
       (candidates Manila
          \<lparr>employment_status = Some ''self-employed'', philhealth_number = Some ''120512345678'',
            sss_number = None, pagibig_number = None\<rparr> 1707528600000) =
     [\<lparr>agency = ''PhilHealth'',
       description = ''PhilHealth contribution payment (Self-employed) - Form PMRF, PPP5'',
       dueDate = ''2024-02-29'',
       membershipNumber = ''120512345678''\<rparr>]"
proof -
  let ?h = Manila
  have Y: "currentYear ?h 1707528600000 = 2024"
    by code_simp
  have M: "currentMonth ?h 1707528600000 = 2"
    by code_simp
  have c: "clock_in_range ?h 1707528600000"
    by (simp add: clock_in_range_def Y msPerDay_def LocalTZA_Manila)
  have d: "iso_date 2024 2 (days_in_month 2024 2) = ''2024-02-29''"
    by code_simp
  show ?thesis
    using philhealth_self_employed_last_day [of
        "\<lparr>employment_status = Some ''self-employed'', philhealth_number = Some ''120512345678'',
            sss_number = None, pagibig_number = None\<rparr>" "''120512345678''" ?h 1707528600000] c
    by (simp add: Y M d)
qed

text \<open>
  Before the last day of the month, on a host at or east of UTC, the PhilHealth entry of
  a self-employed member is returned as well.
\<close>

lemma last_day_entry_returned_before_last_day:
  assumes "1000 \<le> currentYear h now" and "currentYear h now \<le> 9999"
    and "0 \<le> LocalTZA h" and "LocalTZA h \<le> msPerDay"
    and "employment_status u = Some ''self-employed''"
    and "DateFromTime (LocalTime h now) < days_in_month (currentYear h now) (currentMonth h now)"
  shows "of_agency ''PhilHealth'' (computeDueDates h u now)
      = of_agency ''PhilHealth'' (candidates h u now)"
proof -
  define t where "t = LocalTime h now"
  define Y M where "Y = YearFromTime t" and "M = MonthFromTime t + 1"
  have c: "currentYear h now = Y" "currentMonth h now = M"
    by (simp_all add: currentYear_def currentMonth_def getFullYear_def getMonth_def t_def Y_def
        M_def)
  have M: "1 \<le> M" "M \<le> 12"
    using MonthFromTime_range [of t] by (simp_all add: M_def)
  have r: "clock_in_range h now"
    using assms(1-4) by (simp add: clock_in_range_def)
  have "Day t = MakeDay Y (M - 1) 1 + (DateFromTime t - 1)"
    using MakeDay_of_fields [of t] MakeDay_date [of Y "M - 1" "DateFromTime t"]
    by (simp add: Y_def M_def)
  then have today: "Day (LocalTime h now) < MakeDay Y (M - 1) (days_in_month Y M)"
    using assms(6) MakeDay_date [of Y "M - 1" "days_in_month Y M"]
    by (simp add: c t_def)
  have kept: "not_before_now h now e" if "e \<in> set (philhealth_block h u now [])" for e
  proof -
    have "philhealth_number u = None \<Longrightarrow> philhealth_block h u now [] = []"
      and "philhealth_number u = Some [] \<Longrightarrow> philhealth_block h u now [] = []"
      by (simp_all add: philhealth_block_def)
    with that have "philhealth_number u \<noteq> None" "philhealth_number u \<noteq> Some []"
      by fastforce+
    then obtain n where n: "philhealth_number u = Some n" "n \<noteq> []"
      by (cases "philhealth_number u") auto
    have "philhealth_block h u now [] =
        [\<lparr>agency = ''PhilHealth'',
          description = ''PhilHealth contribution payment (Self-employed) - Form PMRF, PPP5'',
          dueDate = iso_date Y M (days_in_month Y M), membershipNumber = n\<rparr>]"
      using philhealth_self_employed_last_day [OF n assms(5) r]
      by (simp add: of_agency_candidates c)
    then have "dueDate e = iso_date Y M (days_in_month Y M)"
      using that by simp
    then show ?thesis
      using assms(1-3) M today days_in_month_range [of Y M]
      by (intro later_date_kept [of Y M "days_in_month Y M"]) (simp_all add: c)
  qed
  then show ?thesis
    by (simp add: of_agency_computeDueDates of_agency_candidates filter_id_conv)
qed

text \<open>
  With a Pag-IBIG number present and status \<^verbatim>\<open>self-employed\<close>, the Pag-IBIG entries pushed
  are exactly two: the primary one and the quarterly option, due on the first day of the
  first month of the quarter after the one the month of the clock is in (months 1 to 3,
  4 to 6, 7 to 9 and 10 to 12; after the fourth quarter, January of the next year). With
  any other status no quarterly option is pushed.
\<close>

lemma pagibig_quarterly_option_self_employed_only:
  "(pagibig_number u = Some n \<and> n \<noteq> [] \<and> employment_status u = Some ''self-employed'' \<longrightarrow>
      of_agency ''Pag-IBIG'' (candidates h u now) =
        [\<lparr>agency = ''Pag-IBIG'',
          description = ''Pag-IBIG contribution payment (Self-employed) - Form MDF, POF'',
          dueDate = iso_date (currentYear h now + currentMonth h now div 12)
            (currentMonth h now mod 12 + 1) 10,
          membershipNumber = n\<rparr>,
         \<lparr>agency = ''Pag-IBIG'',
          description = ''Pag-IBIG contribution payment (Quarterly Option) - Form MDF, POF'',
          dueDate =
            (if quarter_of (currentMonth h now) = 4 then iso_date (currentYear h now + 1) 1 1
             else iso_date (currentYear h now) (3 * quarter_of (currentMonth h now) + 1) 1),
          membershipNumber = n\<rparr>])
   \<and> (employment_status u \<noteq> Some ''self-employed'' \<longrightarrow>
      filter is_quarterly_option (candidates h u now) = [])"
  using next_month [OF currentMonth_range, of h now] quarter_ceiling [OF currentMonth_range, of h now]
  by (auto simp: pagibig_kinds of_agency_candidates pagibig_block_def iso_date_def Let_def ten
      padStart_def getFirstDayOfNextQuarter_def algebra_simps split: option.splits)

text \<open>
  On 2025-08-20, in the third quarter, the entries pushed are due 2025-09-10 and
  2025-10-01; the same profile with status \<^verbatim>\<open>employed\<close> has no quarterly option.
\<close>

lemma pagibig_quarterly_option_self_employed_only_example:
  "of_agency ''Pag-IBIG''
     (candidates Manila
        \<lparr>employment_status = Some ''self-employed'', philhealth_number = None,
          sss_number = None, pagibig_number = Some ''121234567890''\<rparr> 1755648000000) =
     [\<lparr>agency = ''Pag-IBIG'',
       description = ''Pag-IBIG contribution payment (Self-employed) - Form MDF, POF'',
       dueDate = ''2025-09-10'', membershipNumber = ''121234567890''\<rparr>,
      \<lparr>agency = ''Pag-IBIG'',
       description = ''Pag-IBIG contribution payment (Quarterly Option) - Form MDF, POF'',
       dueDate = ''2025-10-01'', membershipNumber = ''121234567890''\<rparr>]
   \<and> filter is_quarterly_option
     (candidates Manila
        \<lparr>employment_status = Some ''employed'', philhealth_number = None,
          sss_number = None, pagibig_number = Some ''121234567890''\<rparr> 1755648000000) = []"
proof -
  let ?h = Manila
  have Y: "currentYear ?h 1755648000000 = 2025"
    by code_simp
  have M: "currentMonth ?h 1755648000000 = 8"
    by code_simp
  have d: "iso_date 2025 9 10 = ''2025-09-10''" "iso_date 2025 10 1 = ''2025-10-01''"
    by code_simp+
  show ?thesis
    using
      pagibig_quarterly_option_self_employed_only [of
        "\<lparr>employment_status = Some ''self-employed'', philhealth_number = None,
          sss_number = None, pagibig_number = Some ''121234567890''\<rparr>" "''121234567890''"
        ?h 1755648000000]
      pagibig_quarterly_option_self_employed_only [of
        "\<lparr>employment_status = Some ''employed'', philhealth_number = None,
          sss_number = None, pagibig_number = Some ''121234567890''\<rparr>" "''121234567890''"
        ?h 1755648000000]
    by (simp add: Y M d quarter_of_def)
qed

section \<open>The untyped handler on the rows the database returns\<close>

text \<open>
  On a row whose four columns are strings or null the untyped handler raises nothing and
  computes what the typed one does: the only method call, \<^verbatim>\<open>slice\<close>, is guarded by the
  truthiness of the number, which on such a row leaves a non-empty string.
\<close>

lemma philhealth_block_js_typed:
  assumes "text_columns r"
  shows "philhealth_block_js h r now (map untyped_entry ds)
     = Inr (map untyped_entry (philhealth_block h (typed_row r) now ds))"
  using assms
  by (cases "philhealth_number_js r"; cases "employment_status_js r")
     (simp_all add: philhealth_block_js_def philhealth_block_def text_columns_def text_column_def
        typed_row_def column_text_def ToBoolean_def call_slice_last_def untyped_entry_def Let_def)

lemma sss_block_js_typed:
  assumes "text_columns r"
  shows "sss_block_js h r now (map untyped_entry ds)
     = map untyped_entry (sss_block h (typed_row r) now ds)"
  using assms
  by (cases "sss_number_js r"; cases "employment_status_js r")
     (simp_all add: sss_block_js_def sss_block_def text_columns_def text_column_def
        typed_row_def column_text_def ToBoolean_def untyped_entry_def Let_def)

lemma pagibig_block_js_typed:
  assumes "text_columns r"
  shows "pagibig_block_js h r now (map untyped_entry ds)
     = map untyped_entry (pagibig_block h (typed_row r) now ds)"
  using assms
  by (cases "pagibig_number_js r"; cases "employment_status_js r")
     (simp_all add: pagibig_block_js_def pagibig_block_def text_columns_def text_column_def
        typed_row_def column_text_def ToBoolean_def untyped_entry_def Let_def)

lemma not_before_now_js_typed: "not_before_now_js h now (untyped_entry e) = not_before_now h now e"
  by (simp add: not_before_now_js_def not_before_now_def untyped_entry_def)

lemma computeDueDates_js_typed:
  assumes "text_columns r"
  shows "computeDueDates_js h r now
     = Inr (map untyped_entry (computeDueDates h (typed_row r) now))"
proof -
  have "philhealth_block_js h r now []
      = Inr (map untyped_entry (philhealth_block h (typed_row r) now []))"
    using philhealth_block_js_typed [OF assms, of h now "[]"] by simp
  then show ?thesis
    by (simp add: computeDueDates_js_def computeDueDates_def candidates_def
        sss_block_js_typed [OF assms] pagibig_block_js_typed [OF assms] filter_map comp_def
        not_before_now_js_typed)
qed

text \<open>
  The guard does not cover every value: a number that a numeric column would deliver is
  truthy and has no \<^verbatim>\<open>slice\<close>.
\<close>

lemma number_column_raises:
  "due_dates_handler_js h
     (Inr [\<lparr>employment_status_js = JSstring ''employed'', philhealth_number_js = JSnumber 7,
            sss_number_js = JSnull, pagibig_number_js = JSnull\<rparr>]) now = Inl TypeError"
  by (simp add: due_dates_handler_js_def computeDueDates_js_def philhealth_block_js_def
      ToBoolean_def call_slice_last_def)

section \<open>The claims\<close>

text \<open>
  \<open>candidates\<close> is the array before the filter and \<open>computeDueDates\<close> the list that is
  returned. \<open>currentYear h now\<close> and \<open>currentMonth h now\<close> are the year and month of asOf,
  and the month after month \<open>m\<close> of year \<open>y\<close> is month \<open>m mod 12 + 1\<close> of year
  \<open>y + m div 12\<close>.
\<close>

text \<open>
  C1. The result should be the candidate list without the entries due strictly before
  asOf's civil date, an entry due on that date being kept. The handler does not do that.
  On 2024-02-29 at noon in Manila (time value 1709179200000) a self-employed profile with
  a PhilHealth number has one candidate, due 2024-02-29, the date the clock shows. The
  filter by civil dates keeps it; the handler compares midnight UTC of the due date with
  the instant of the clock, which is later, and answers with the empty list. The same
  happens at noon on a UTC host (time value 1709208000000). Lemma \<open>due_today_kept_iff\<close>
  above is the general fact: an entry due today survives only while the local time of day
  is at most the zone offset.
\<close>

theorem entry_due_today_is_filtered_out:
  "asOf_date Manila 1709179200000 = (2024, 2, 29)
   \<and> candidates Manila
        \<lparr>employment_status = Some ''self-employed'', philhealth_number = Some ''010000000007'',
          sss_number = None, pagibig_number = None\<rparr> 1709179200000 =
       [\<lparr>agency = ''PhilHealth'',
         description = ''PhilHealth contribution payment (Self-employed) - Form PMRF, PPP5'',
         dueDate = ''2024-02-29'', membershipNumber = ''010000000007''\<rparr>]
   \<and> drop_past_dates Manila 1709179200000
       (candidates Manila
        \<lparr>employment_status = Some ''self-employed'', philhealth_number = Some ''010000000007'',
          sss_number = None, pagibig_number = None\<rparr> 1709179200000) =
       [\<lparr>agency = ''PhilHealth'',
         description = ''PhilHealth contribution payment (Self-employed) - Form PMRF, PPP5'',
         dueDate = ''2024-02-29'', membershipNumber = ''010000000007''\<rparr>]
   \<and> computeDueDates Manila
        \<lparr>employment_status = Some ''self-employed'', philhealth_number = Some ''010000000007'',
          sss_number = None, pagibig_number = None\<rparr> 1709179200000 = []
   \<and> asOf_date UTC_host 1709208000000 = (2024, 2, 29)
   \<and> candidates UTC_host
        \<lparr>employment_status = Some ''self-employed'', philhealth_number = Some ''010000000007'',
          sss_number = None, pagibig_number = None\<rparr> 1709208000000 =
       [\<lparr>agency = ''PhilHealth'',
         description = ''PhilHealth contribution payment (Self-employed) - Form PMRF, PPP5'',
         dueDate = ''2024-02-29'', membershipNumber = ''010000000007''\<rparr>]
   \<and> computeDueDates UTC_host
        \<lparr>employment_status = Some ''self-employed'', philhealth_number = Some ''010000000007'',
          sss_number = None, pagibig_number = None\<rparr> 1709208000000 = []"
  by code_simp

text \<open>
  C2. With a PhilHealth number present and status \<^verbatim>\<open>employed\<close>, exactly one PhilHealth entry
  is pushed: it is due in the month after asOf's month, the year going up after December,
  on the 15th when the number ends in one of the digits 1 to 5 and on the 20th when it
  ends in anything else, digit or not. With a status that is neither \<^verbatim>\<open>employed\<close> nor
  \<^verbatim>\<open>self-employed\<close> (null included) no PhilHealth entry is pushed. The same holds of the
  list that is returned, the entry being returned when the years of the clock have four
  digits (see \<open>four_digit_years\<close>).
\<close>

theorem philhealth_employed_day_by_last_digit:
  assumes "philhealth_number u = Some n" and "n \<noteq> []"
  shows "(employment_status u = Some ''employed'' \<longrightarrow>
      of_agency ''PhilHealth'' (candidates h u now) =
        [\<lparr>agency = ''PhilHealth'',
          description = ''PhilHealth contribution payment (Employed) - Form PMRF, ER2'',
          dueDate = iso_date (currentYear h now + currentMonth h now div 12)
            (currentMonth h now mod 12 + 1) (if last n \<in> set ''12345'' then 15 else 20),
          membershipNumber = n\<rparr>])
    \<and> (employment_status u \<noteq> Some ''employed''
        \<and> employment_status u \<noteq> Some ''self-employed'' \<longrightarrow>
      of_agency ''PhilHealth'' (candidates h u now) = [])
    \<and> (employment_status u = Some ''employed'' \<and> four_digit_years h now \<longrightarrow>
      of_agency ''PhilHealth'' (computeDueDates h u now) =
        [\<lparr>agency = ''PhilHealth'',
          description = ''PhilHealth contribution payment (Employed) - Form PMRF, ER2'',
          dueDate = iso_date (currentYear h now + currentMonth h now div 12)
            (currentMonth h now mod 12 + 1) (if last n \<in> set ''12345'' then 15 else 20),
          membershipNumber = n\<rparr>])
    \<and> (employment_status u \<noteq> Some ''employed''
        \<and> employment_status u \<noteq> Some ''self-employed'' \<longrightarrow>
      of_agency ''PhilHealth'' (computeDueDates h u now) = [])"
proof -
  have pushed: "(employment_status u = Some ''employed'' \<longrightarrow>
      of_agency ''PhilHealth'' (candidates h u now) =
        [\<lparr>agency = ''PhilHealth'',
          description = ''PhilHealth contribution payment (Employed) - Form PMRF, ER2'',
          dueDate = iso_date (currentYear h now + currentMonth h now div 12)
            (currentMonth h now mod 12 + 1) (if last n \<in> set ''12345'' then 15 else 20),
          membershipNumber = n\<rparr>])
    \<and> (employment_status u \<noteq> Some ''employed''
        \<and> employment_status u \<noteq> Some ''self-employed'' \<longrightarrow>
      of_agency ''PhilHealth'' (candidates h u now) = [])"
    using assms next_month [OF currentMonth_range, of h now]
    by (simp add: of_agency_candidates philhealth_block_def iso_date_def Let_def
        slice_last_nonempty one_to_five)
  have kept: "of_agency ''PhilHealth'' (computeDueDates h u now)
      = of_agency ''PhilHealth'' (candidates h u now)"
    if "employment_status u = Some ''employed''" and "four_digit_years h now"
    using that next_month_entries_returned(1) [of h now u]
    by (simp add: four_digit_years_def)
  have none: "of_agency ''PhilHealth'' (computeDueDates h u now) = []"
    if "of_agency ''PhilHealth'' (candidates h u now) = []"
    using that by (simp add: of_agency_computeDueDates)
  from pushed kept none show ?thesis
    by metis
qed

text \<open>
  In Manila: a number ending in 7 on 2025-12-05, pushed and returned; one ending in 3 and
  one ending in a letter on 2025-10-15; and a profile with no status.
\<close>

theorem philhealth_employed_day_by_last_digit_witness:
  "of_agency ''PhilHealth''
     (candidates Manila
        \<lparr>employment_status = Some ''employed'', philhealth_number = Some ''010000000007'',
          sss_number = None, pagibig_number = None\<rparr> 1764900000000) =
     [\<lparr>agency = ''PhilHealth'',
       description = ''PhilHealth contribution payment (Employed) - Form PMRF, ER2'',
       dueDate = ''2026-01-20'', membershipNumber = ''010000000007''\<rparr>]
   \<and> four_digit_years Manila 1764900000000
   \<and> of_agency ''PhilHealth''
     (computeDueDates Manila
        \<lparr>employment_status = Some ''employed'', philhealth_number = Some ''010000000007'',
          sss_number = None, pagibig_number = None\<rparr> 1764900000000) =
     [\<lparr>agency = ''PhilHealth'',
       description = ''PhilHealth contribution payment (Employed) - Form PMRF, ER2'',
       dueDate = ''2026-01-20'', membershipNumber = ''010000000007''\<rparr>]
   \<and> of_agency ''PhilHealth''
     (candidates Manila
        \<lparr>employment_status = Some ''employed'', philhealth_number = Some ''010000000003'',
          sss_number = None, pagibig_number = None\<rparr> 1760486400000) =
     [\<lparr>agency = ''PhilHealth'',
       description = ''PhilHealth contribution payment (Employed) - Form PMRF, ER2'',
       dueDate = ''2025-11-15'', membershipNumber = ''010000000003''\<rparr>]
   \<and> of_agency ''PhilHealth''
     (candidates Manila
        \<lparr>employment_status = Some ''employed'', philhealth_number = Some ''01-000-X'',
          sss_number = None, pagibig_number = None\<rparr> 1760486400000) =
     [\<lparr>agency = ''PhilHealth'',
       description = ''PhilHealth contribution payment (Employed) - Form PMRF, ER2'',
       dueDate = ''2025-11-20'', membershipNumber = ''01-000-X''\<rparr>]
   \<and> of_agency ''PhilHealth''
     (candidates Manila
        \<lparr>employment_status = None, philhealth_number = Some ''010000000003'',
          sss_number = None, pagibig_number = None\<rparr> 1760486400000) = []
   \<and> of_agency ''PhilHealth''
     (computeDueDates Manila
        \<lparr>employment_status = None, philhealth_number = Some ''010000000003'',
          sss_number = None, pagibig_number = None\<rparr> 1760486400000) = []"
proof -
  let ?h = Manila
  have Y: "currentYear ?h 1764900000000 = 2025" "currentYear ?h 1760486400000 = 2025"
    by code_simp+
  have M: "currentMonth ?h 1764900000000 = 12" "currentMonth ?h 1760486400000 = 10"
    by code_simp+
  have f: "four_digit_years ?h 1764900000000"
    by (simp add: four_digit_years_def Y msPerDay_def LocalTZA_Manila)
  have d: "iso_date 2026 1 20 = ''2026-01-20''" "iso_date 2025 11 15 = ''2025-11-15''"
    "iso_date 2025 11 20 = ''2025-11-20''"
    by code_simp+
  show ?thesis
    using
      philhealth_employed_day_by_last_digit [of
        "\<lparr>employment_status = Some ''employed'', philhealth_number = Some ''010000000007'',
          sss_number = None, pagibig_number = None\<rparr>" "''010000000007''" ?h 1764900000000]
      philhealth_employed_day_by_last_digit [of
        "\<lparr>employment_status = Some ''employed'', philhealth_number = Some ''010000000003'',
          sss_number = None, pagibig_number = None\<rparr>" "''010000000003''" ?h 1760486400000]
      philhealth_employed_day_by_last_digit [of
        "\<lparr>employment_status = Some ''employed'', philhealth_number = Some ''01-000-X'',
          sss_number = None, pagibig_number = None\<rparr>" "''01-000-X''" ?h 1760486400000]
      philhealth_employed_day_by_last_digit [of
        "\<lparr>employment_status = None, philhealth_number = Some ''010000000003'',
          sss_number = None, pagibig_number = None\<rparr>" "''010000000003''" ?h 1760486400000]
      f
    by (simp add: Y M d)
qed

text \<open>
  C3. With a PhilHealth number present and status \<^verbatim>\<open>self-employed\<close>, exactly one PhilHealth
  entry should be produced, due on the last day of asOf's own month. The handler pushes
  that entry (\<open>philhealth_self_employed_last_day\<close> above) and returns it before the last day
  of the month (\<open>last_day_entry_returned_before_last_day\<close>), but on the last day itself,
  the day the entry is due, the filter takes it out again: at noon on 2024-02-29, on a UTC
  host as in Manila, a self-employed profile with a PhilHealth and an SSS number gets the
  SSS entry and no PhilHealth entry. It is the defect of C1.
\<close>

theorem last_day_entry_missing_on_last_day:
  "asOf_date UTC_host 1709208000000 = (2024, 2, 29)
   \<and> candidates UTC_host
        \<lparr>employment_status = Some ''self-employed'', philhealth_number = Some ''010000000007'',
          sss_number = Some ''3412345678'', pagibig_number = None\<rparr> 1709208000000 =
       [\<lparr>agency = ''PhilHealth'',
         description = ''PhilHealth contribution payment (Self-employed) - Form PMRF, PPP5'',
         dueDate = ''2024-02-29'', membershipNumber = ''010000000007''\<rparr>,
        \<lparr>agency = ''SSS'',
         description = ''SSS contribution payment (Self-employed) - Form RS-1, RS-5'',
         dueDate = ''2024-03-31'', membershipNumber = ''3412345678''\<rparr>]
   \<and> computeDueDates UTC_host
        \<lparr>employment_status = Some ''self-employed'', philhealth_number = Some ''010000000007'',
          sss_number = Some ''3412345678'', pagibig_number = None\<rparr> 1709208000000 =
       [\<lparr>agency = ''SSS'',
         description = ''SSS contribution payment (Self-employed) - Form RS-1, RS-5'',
         dueDate = ''2024-03-31'', membershipNumber = ''3412345678''\<rparr>]
   \<and> of_agency ''PhilHealth''
       (computeDueDates Manila
        \<lparr>employment_status = Some ''self-employed'', philhealth_number = Some ''010000000007'',
          sss_number = Some ''3412345678'', pagibig_number = None\<rparr> 1709179200000) = []"
  by code_simp

text \<open>
  C4. With an SSS number present, whatever the employment status, exactly one SSS entry
  is pushed, due on the last day of the month after asOf's month, the year going up after
  December; its description names the forms R-1, R-1A, R-3 for status \<^verbatim>\<open>employed\<close> and
  RS-1, RS-5 for every other status. The clock is taken in range. The entry is returned
  when the years of the clock have four digits.
\<close>

theorem sss_last_day_of_next_month:
  assumes "sss_number u = Some n" and "n \<noteq> []" and "clock_in_range h now"
  shows "of_agency ''SSS'' (candidates h u now) =
     [\<lparr>agency = ''SSS'',
       description =
         (if employment_status u = Some ''employed''
          then ''SSS contribution payment (Employed) - Form R-1, R-1A, R-3''
          else ''SSS contribution payment (Self-employed) - Form RS-1, RS-5''),
       dueDate = iso_date (currentYear h now + currentMonth h now div 12)
         (currentMonth h now mod 12 + 1)
         (days_in_month (currentYear h now + currentMonth h now div 12)
            (currentMonth h now mod 12 + 1)),
       membershipNumber = n\<rparr>]
   \<and> (four_digit_years h now \<longrightarrow>
      of_agency ''SSS'' (computeDueDates h u now) =
        [\<lparr>agency = ''SSS'',
          description =
            (if employment_status u = Some ''employed''
             then ''SSS contribution payment (Employed) - Form R-1, R-1A, R-3''
             else ''SSS contribution payment (Self-employed) - Form RS-1, RS-5''),
          dueDate = iso_date (currentYear h now + currentMonth h now div 12)
            (currentMonth h now mod 12 + 1)
            (days_in_month (currentYear h now + currentMonth h now div 12)
               (currentMonth h now mod 12 + 1)),
          membershipNumber = n\<rparr>])"
proof -
  define Y M where "Y = currentYear h now + currentMonth h now div 12"
    and "M = currentMonth h now mod 12 + 1"
  have nm: "(if currentMonth h now = 12 then 1 else currentMonth h now + 1) = M"
    "(if currentMonth h now = 12 then currentYear h now + 1 else currentYear h now) = Y"
    using next_month [OF currentMonth_range, of h now] by (simp_all add: Y_def M_def)
  have "1 \<le> M" "M \<le> 12"
    using currentMonth_range [of h now] by (simp_all add: M_def)
  moreover have "100 \<le> Y" "Y \<le> 275759"
    using assms(3) currentMonth_range [of h now] nm(2) [symmetric]
    by (simp_all add: clock_in_range_def split: if_splits)
  ultimately have "getLastDayOfMonth h Y M = Some (days_in_month Y M)"
    using assms(3) by (intro getLastDayOfMonth_days_in_month) (simp_all add: clock_in_range_def)
  then have pushed: "of_agency ''SSS'' (candidates h u now) =
     [\<lparr>agency = ''SSS'',
       description =
         (if employment_status u = Some ''employed''
          then ''SSS contribution payment (Employed) - Form R-1, R-1A, R-3''
          else ''SSS contribution payment (Self-employed) - Form RS-1, RS-5''),
       dueDate = iso_date Y M (days_in_month Y M),
       membershipNumber = n\<rparr>]"
    using assms(1,2)
    by (simp add: of_agency_candidates sss_block_def iso_date_def String_num_Some Let_def nm)
  have kept: "of_agency ''SSS'' (computeDueDates h u now) = of_agency ''SSS'' (candidates h u now)"
    if "four_digit_years h now"
    using that next_month_entries_returned(2) [of h now u]
    by (simp add: four_digit_years_def)
  from pushed kept show ?thesis
    unfolding Y_def M_def by metis
qed

text \<open>
  The example of the specification: 2025-01-31 gives 2025-02-28, here with no status,
  pushed and returned.
\<close>

theorem sss_last_day_of_next_month_witness:
  "clock_in_range Manila 1738306800000
   \<and> of_agency ''SSS''
     (candidates Manila
        \<lparr>employment_status = None, philhealth_number = None,
          sss_number = Some ''3412345678'', pagibig_number = None\<rparr> 1738306800000) =
     [\<lparr>agency = ''SSS'',
       description = ''SSS contribution payment (Self-employed) - Form RS-1, RS-5'',
       dueDate = ''2025-02-28'', membershipNumber = ''3412345678''\<rparr>]
   \<and> four_digit_years Manila 1738306800000
   \<and> of_agency ''SSS''
     (computeDueDates Manila
        \<lparr>employment_status = None, philhealth_number = None,
          sss_number = Some ''3412345678'', pagibig_number = None\<rparr> 1738306800000) =
     [\<lparr>agency = ''SSS'',
       description = ''SSS contribution payment (Self-employed) - Form RS-1, RS-5'',
       dueDate = ''2025-02-28'', membershipNumber = ''3412345678''\<rparr>]"
proof -
  let ?h = Manila
  have Y: "currentYear ?h 1738306800000 = 2025"
    by code_simp
  have M: "currentMonth ?h 1738306800000 = 1"
    by code_simp
  have c: "clock_in_range ?h 1738306800000"
    by (simp add: clock_in_range_def Y msPerDay_def LocalTZA_Manila)
  have f: "four_digit_years ?h 1738306800000"
    by (simp add: four_digit_years_def Y msPerDay_def LocalTZA_Manila)
  have d: "iso_date 2025 2 (days_in_month 2025 2) = ''2025-02-28''"
    by code_simp
  show ?thesis
    using sss_last_day_of_next_month [of
        "\<lparr>employment_status = None, philhealth_number = None,
          sss_number = Some ''3412345678'', pagibig_number = None\<rparr>" "''3412345678''"
        ?h 1738306800000] c f
    by (simp add: Y M d)
qed

text \<open>
  C5. With a Pag-IBIG number present: when the status is \<^verbatim>\<open>employed\<close> or \<^verbatim>\<open>self-employed\<close>
  the primary Pag-IBIG entries are exactly one, due on the 10th of the month after asOf's
  month, the year going up after December; with any other status there is no Pag-IBIG
  entry at all. The same holds of the list that is returned, the entry being returned
  when the years of the clock have four digits.
\<close>

theorem pagibig_primary_tenth_of_next_month:
  assumes "pagibig_number u = Some n" and "n \<noteq> []"
  shows "(if employment_status u = Some ''employed''
            \<or> employment_status u = Some ''self-employed''
          then filter is_pagibig_primary (candidates h u now) =
            [\<lparr>agency = ''Pag-IBIG'',
              description =
                (if employment_status u = Some ''employed''
                 then ''Pag-IBIG contribution payment (Employed) - Form ER1, MDF, MRS''
                 else ''Pag-IBIG contribution payment (Self-employed) - Form MDF, POF''),
              dueDate = iso_date (currentYear h now + currentMonth h now div 12)
                (currentMonth h now mod 12 + 1) 10,
              membershipNumber = n\<rparr>]
          else of_agency ''Pag-IBIG'' (candidates h u now) = [])
   \<and> ((employment_status u = Some ''employed''
          \<or> employment_status u = Some ''self-employed'') \<and> four_digit_years h now \<longrightarrow>
        filter is_pagibig_primary (computeDueDates h u now) =
          [\<lparr>agency = ''Pag-IBIG'',
            description =
              (if employment_status u = Some ''employed''
               then ''Pag-IBIG contribution payment (Employed) - Form ER1, MDF, MRS''
               else ''Pag-IBIG contribution payment (Self-employed) - Form MDF, POF''),
            dueDate = iso_date (currentYear h now + currentMonth h now div 12)
              (currentMonth h now mod 12 + 1) 10,
            membershipNumber = n\<rparr>])
   \<and> (employment_status u \<noteq> Some ''employed''
        \<and> employment_status u \<noteq> Some ''self-employed'' \<longrightarrow>
        of_agency ''Pag-IBIG'' (computeDueDates h u now) = [])"
proof -
  have pushed: "(if employment_status u = Some ''employed''
            \<or> employment_status u = Some ''self-employed''
          then filter is_pagibig_primary (candidates h u now) =
            [\<lparr>agency = ''Pag-IBIG'',
              description =
                (if employment_status u = Some ''employed''
                 then ''Pag-IBIG contribution payment (Employed) - Form ER1, MDF, MRS''
                 else ''Pag-IBIG contribution payment (Self-employed) - Form MDF, POF''),
              dueDate = iso_date (currentYear h now + currentMonth h now div 12)
                (currentMonth h now mod 12 + 1) 10,
              membershipNumber = n\<rparr>]
          else of_agency ''Pag-IBIG'' (candidates h u now) = [])"
    using assms next_month [OF currentMonth_range, of h now]
    by (simp add: pagibig_kinds of_agency_candidates pagibig_block_def iso_date_def Let_def ten
        padStart_def)
  have kept: "filter is_pagibig_primary (computeDueDates h u now)
      = filter is_pagibig_primary (candidates h u now)"
    if "four_digit_years h now"
    using that next_month_entries_returned(3) [of h now u]
    by (simp add: four_digit_years_def)
  have none: "of_agency ''Pag-IBIG'' (computeDueDates h u now) = []"
    if "of_agency ''Pag-IBIG'' (candidates h u now) = []"
    using that by (simp add: of_agency_computeDueDates)
  show ?thesis
  proof (cases "employment_status u = Some ''employed''
            \<or> employment_status u = Some ''self-employed''")
    case True
    with pushed kept show ?thesis by auto
  next
    case False
    with pushed none show ?thesis by auto
  qed
qed

text \<open>An employed profile on 2025-12-05 in Manila, and the same profile with no status.\<close>

theorem pagibig_primary_tenth_of_next_month_witness:
  "filter is_pagibig_primary
     (candidates Manila
        \<lparr>employment_status = Some ''employed'', philhealth_number = None,
          sss_number = None, pagibig_number = Some ''121234567890''\<rparr> 1764900000000) =
     [\<lparr>agency = ''Pag-IBIG'',
       description = ''Pag-IBIG contribution payment (Employed) - Form ER1, MDF, MRS'',
       dueDate = ''2026-01-10'', membershipNumber = ''121234567890''\<rparr>]
   \<and> four_digit_years Manila 1764900000000
   \<and> filter is_pagibig_primary
     (computeDueDates Manila
        \<lparr>employment_status = Some ''employed'', philhealth_number = None,
          sss_number = None, pagibig_number = Some ''121234567890''\<rparr> 1764900000000) =
     [\<lparr>agency = ''Pag-IBIG'',
       description = ''Pag-IBIG contribution payment (Employed) - Form ER1, MDF, MRS'',
       dueDate = ''2026-01-10'', membershipNumber = ''121234567890''\<rparr>]
   \<and> of_agency ''Pag-IBIG''
     (candidates Manila
        \<lparr>employment_status = None, philhealth_number = None,
          sss_number = None, pagibig_number = Some ''121234567890''\<rparr> 1764900000000) = []
   \<and> of_agency ''Pag-IBIG''
     (computeDueDates Manila
        \<lparr>employment_status = None, philhealth_number = None,
          sss_number = None, pagibig_number = Some ''121234567890''\<rparr> 1764900000000) = []"
proof -
  let ?h = Manila
  have Y: "currentYear ?h 1764900000000 = 2025"
    by code_simp
  have M: "currentMonth ?h 1764900000000 = 12"
    by code_simp
  have f: "four_digit_years ?h 1764900000000"
    by (simp add: four_digit_years_def Y msPerDay_def LocalTZA_Manila)
  have d: "iso_date 2026 1 10 = ''2026-01-10''"
    by code_simp
  show ?thesis
    using
      pagibig_primary_tenth_of_next_month [of
        "\<lparr>employment_status = Some ''employed'', philhealth_number = None,
          sss_number = None, pagibig_number = Some ''121234567890''\<rparr>" "''121234567890''"
        ?h 1764900000000]
      pagibig_primary_tenth_of_next_month [of
        "\<lparr>employment_status = None, philhealth_number = None,
          sss_number = None, pagibig_number = Some ''121234567890''\<rparr>" "''121234567890''"
        ?h 1764900000000]
      f
    by (simp add: Y M d)
qed

text \<open>
  C6. With a Pag-IBIG number present and status \<^verbatim>\<open>self-employed\<close>, exactly two Pag-IBIG
  entries should be produced, the primary one and the quarterly option. The handler pushes
  both (\<open>pagibig_quarterly_option_self_employed_only\<close> above) and, on a host at or east of
  UTC, returns both (\<open>quarterly_option_returned\<close>). On a host west of UTC it does not: on
  2025-09-30 at 23:00 in Lima (time value 1759291200000, 04:00 UTC of the next day) the
  quarterly option is due 2025-10-01, the day after asOf, and the filter, which compares
  midnight UTC of that date with the instant of the clock, takes it out. One Pag-IBIG
  entry is returned. It is the defect of C1.
\<close>

theorem quarterly_option_missing_west_of_UTC:
  "asOf_date Lima 1759291200000 = (2025, 9, 30)
   \<and> candidates Lima
        \<lparr>employment_status = Some ''self-employed'', philhealth_number = None,
          sss_number = None, pagibig_number = Some ''121234567890''\<rparr> 1759291200000 =
       [\<lparr>agency = ''Pag-IBIG'',
         description = ''Pag-IBIG contribution payment (Self-employed) - Form MDF, POF'',
         dueDate = ''2025-10-10'', membershipNumber = ''121234567890''\<rparr>,
        \<lparr>agency = ''Pag-IBIG'',
         description = ''Pag-IBIG contribution payment (Quarterly Option) - Form MDF, POF'',
         dueDate = ''2025-10-01'', membershipNumber = ''121234567890''\<rparr>]
   \<and> drop_past_dates Lima 1759291200000
       (candidates Lima
        \<lparr>employment_status = Some ''self-employed'', philhealth_number = None,
          sss_number = None, pagibig_number = Some ''121234567890''\<rparr> 1759291200000) =
       candidates Lima
        \<lparr>employment_status = Some ''self-employed'', philhealth_number = None,
          sss_number = None, pagibig_number = Some ''121234567890''\<rparr> 1759291200000
   \<and> computeDueDates Lima
        \<lparr>employment_status = Some ''self-employed'', philhealth_number = None,
          sss_number = None, pagibig_number = Some ''121234567890''\<rparr> 1759291200000 =
       [\<lparr>agency = ''Pag-IBIG'',
         description = ''Pag-IBIG contribution payment (Self-employed) - Form MDF, POF'',
         dueDate = ''2025-10-10'', membershipNumber = ''121234567890''\<rparr>]"
  by code_simp

text \<open>
  C7. A profile with no PhilHealth, SSS or Pag-IBIG number gets the empty list, at every
  clock reading, in every time zone and whatever its employment status.
\<close>

theorem no_numbers_no_dueDates:
  assumes "philhealth_number u = None" and "sss_number u = None" and "pagibig_number u = None"
  shows "computeDueDates h u now = []"
  using assms
  by (simp add: computeDueDates_def candidates_def philhealth_block_def sss_block_def
      pagibig_block_def)

text \<open>An employed profile without numbers on 2025-10-15, 08:00 in Manila.\<close>

theorem no_numbers_no_dueDates_witness:
  "computeDueDates Manila
     \<lparr>employment_status = Some ''employed'', philhealth_number = None, sss_number = None,
       pagibig_number = None\<rparr> 1760486400000 = []"
  by (rule no_numbers_no_dueDates) simp_all

text \<open>
  C8. Nothing in the computation raises. On the untyped handler, where a method call on
  a value without that method is an exception: when the query succeeds with no row the
  handler answers with the empty list, and when the first row has strings or nulls in
  its four columns, as a row of \<^verbatim>\<open>personal_info\<close> has, it answers with the list the typed
  computation gives, for every clock and host, whatever characters the strings hold.
\<close>

theorem handler_never_raises_on_text_columns:
  "due_dates_handler_js h (Inr []) now = Inr (Json_js [])
   \<and> (text_columns userInfo \<longrightarrow>
        due_dates_handler_js h (Inr (userInfo # rest)) now
          = Inr (Json_js (map untyped_entry (computeDueDates h (typed_row userInfo) now))))"
  by (simp add: due_dates_handler_js_def computeDueDates_js_typed)

text \<open>
  An employed profile whose PhilHealth number ends in a letter, on 2025-10-15 in Manila:
  the answer has the PhilHealth entry on the 20th and the Pag-IBIG entry.
\<close>

theorem handler_never_raises_on_text_columns_witness:
  "text_columns
     \<lparr>employment_status_js = JSstring ''employed'', philhealth_number_js = JSstring ''01-000-X'',
       sss_number_js = JSnull, pagibig_number_js = JSstring ''121234567890''\<rparr>
   \<and> due_dates_handler_js Manila
       (Inr [\<lparr>employment_status_js = JSstring ''employed'',
              philhealth_number_js = JSstring ''01-000-X'',
              sss_number_js = JSnull, pagibig_number_js = JSstring ''121234567890''\<rparr>])
       1760486400000 =
     Inr (Json_js
       [\<lparr>agency_js = ''PhilHealth'',
         description_js = ''PhilHealth contribution payment (Employed) - Form PMRF, ER2'',
         dueDate_js = ''2025-11-20'', membershipNumber_js = JSstring ''01-000-X''\<rparr>,
        \<lparr>agency_js = ''Pag-IBIG'',
         description_js = ''Pag-IBIG contribution payment (Employed) - Form ER1, MDF, MRS'',
         dueDate_js = ''2025-11-10'', membershipNumber_js = JSstring ''121234567890''\<rparr>])"
proof -
  let ?r = "\<lparr>employment_status_js = JSstring ''employed'',
       philhealth_number_js = JSstring ''01-000-X'',
       sss_number_js = JSnull, pagibig_number_js = JSstring ''121234567890''\<rparr>"
  have t: "text_columns ?r"
    by (simp add: text_columns_def text_column_def)
  have e: "map untyped_entry (computeDueDates Manila (typed_row ?r) 1760486400000) =
       [\<lparr>agency_js = ''PhilHealth'',
         description_js = ''PhilHealth contribution payment (Employed) - Form PMRF, ER2'',
         dueDate_js = ''2025-11-20'', membershipNumber_js = JSstring ''01-000-X''\<rparr>,
        \<lparr>agency_js = ''Pag-IBIG'',
         description_js = ''Pag-IBIG contribution payment (Employed) - Form ER1, MDF, MRS'',
         dueDate_js = ''2025-11-10'', membershipNumber_js = JSstring ''121234567890''\<rparr>]"
    by code_simp
  show ?thesis
    using handler_never_raises_on_text_columns [of Manila 1760486400000 ?r "[]"] t
    by (simp only: e)
qed

text \<open>
  C9. A membership number that is the empty string counts as absent: the result is the
  one for null, and it holds no entry of that agency.
\<close>

theorem empty_number_like_absent:
  "computeDueDates h (u\<lparr>philhealth_number := Some []\<rparr>) now
     = computeDueDates h (u\<lparr>philhealth_number := None\<rparr>) now
   \<and> of_agency ''PhilHealth'' (computeDueDates h (u\<lparr>philhealth_number := Some []\<rparr>) now) = []
   \<and> computeDueDates h (u\<lparr>sss_number := Some []\<rparr>) now
     = computeDueDates h (u\<lparr>sss_number := None\<rparr>) now
   \<and> of_agency ''SSS'' (computeDueDates h (u\<lparr>sss_number := Some []\<rparr>) now) = []
   \<and> computeDueDates h (u\<lparr>pagibig_number := Some []\<rparr>) now
     = computeDueDates h (u\<lparr>pagibig_number := None\<rparr>) now
   \<and> of_agency ''Pag-IBIG'' (computeDueDates h (u\<lparr>pagibig_number := Some []\<rparr>) now) = []"
proof -
  have "computeDueDates h (u\<lparr>philhealth_number := Some []\<rparr>) now
     = computeDueDates h (u\<lparr>philhealth_number := None\<rparr>) now"
    by (simp add: computeDueDates_def candidates_def philhealth_block_empty_number
        block_other_fields)
  moreover have
    "of_agency ''PhilHealth'' (computeDueDates h (u\<lparr>philhealth_number := Some []\<rparr>) now) = []"
    by (simp add: of_agency_computeDueDates of_agency_candidates philhealth_block_empty_number)
  moreover have "computeDueDates h (u\<lparr>sss_number := Some []\<rparr>) now
     = computeDueDates h (u\<lparr>sss_number := None\<rparr>) now"
    by (simp add: computeDueDates_def candidates_def sss_block_empty_number block_other_fields)
  moreover have
    "of_agency ''SSS'' (computeDueDates h (u\<lparr>sss_number := Some []\<rparr>) now) = []"
    by (simp add: of_agency_computeDueDates of_agency_candidates sss_block_empty_number)
  moreover have "computeDueDates h (u\<lparr>pagibig_number := Some []\<rparr>) now
     = computeDueDates h (u\<lparr>pagibig_number := None\<rparr>) now"
    by (simp add: computeDueDates_def candidates_def pagibig_block_empty_number
        block_other_fields)
  moreover have
    "of_agency ''Pag-IBIG'' (computeDueDates h (u\<lparr>pagibig_number := Some []\<rparr>) now) = []"
    by (simp add: of_agency_computeDueDates of_agency_candidates pagibig_block_empty_number)
  ultimately show ?thesis by blast
qed

text \<open>
  C10. The result holds at most one PhilHealth entry, at most one SSS entry and at most
  two Pag-IBIG entries, four entries at most; and a quarterly option is only pushed
  together with a primary Pag-IBIG entry for the same membership number.
\<close>

theorem at_most_one_two_entries_per_agency:
  "length (of_agency ''PhilHealth'' (computeDueDates h u now)) \<le> 1
   \<and> length (of_agency ''SSS'' (computeDueDates h u now)) \<le> 1
   \<and> length (of_agency ''Pag-IBIG'' (computeDueDates h u now)) \<le> 2
   \<and> length (computeDueDates h u now) \<le> 4
   \<and> (\<forall>q \<in> set (candidates h u now). is_quarterly_option q \<longrightarrow>
         (\<exists>p \<in> set (candidates h u now).
            is_pagibig_primary p \<and> membershipNumber p = membershipNumber q))"
proof -
  have a: "length (of_agency a (computeDueDates h u now))
      \<le> length (of_agency a (candidates h u now))" for a
    by (simp add: of_agency_computeDueDates)
  have 1: "length (of_agency ''PhilHealth'' (computeDueDates h u now)) \<le> 1"
    using a [of "''PhilHealth''"] length_philhealth_block [of h u now]
    by (simp only: of_agency_candidates)
  have 2: "length (of_agency ''SSS'' (computeDueDates h u now)) \<le> 1"
    using a [of "''SSS''"] length_sss_block [of h u now]
    by (simp only: of_agency_candidates)
  have 3: "length (of_agency ''Pag-IBIG'' (computeDueDates h u now)) \<le> 2"
    using a [of "''Pag-IBIG''"] length_pagibig_block [of h u now]
    by (simp only: of_agency_candidates)
  have "length (computeDueDates h u now) \<le> length (candidates h u now)"
    by (simp add: computeDueDates_def)
  then have 4: "length (computeDueDates h u now) \<le> 4"
    using length_philhealth_block [of h u now] length_sss_block [of h u now]
      length_pagibig_block [of h u now]
    by (simp add: candidates_append)
  have 5: "\<exists>p \<in> set (candidates h u now).
        is_pagibig_primary p \<and> membershipNumber p = membershipNumber q"
    if "q \<in> set (candidates h u now)" and "is_quarterly_option q" for q
  proof -
    have "q \<in> set (pagibig_block h u now [])"
      using that by (simp add: set_pagibig_block is_quarterly_option_def)
    from quarterly_with_primary [OF this that(2)] show ?thesis
      by (auto simp: set_pagibig_block)
  qed
  from 1 2 3 4 5 show ?thesis by blast
qed

text \<open>A self-employed profile with all three numbers on 2025-08-20 in Manila: four entries.\<close>

theorem at_most_one_two_entries_per_agency_witness:
  "length (computeDueDates Manila
        \<lparr>employment_status = Some ''self-employed'', philhealth_number = Some ''010000000007'',
          sss_number = Some ''3412345678'', pagibig_number = Some ''121234567890''\<rparr>
        1755648000000) = 4
   \<and> (\<exists>q \<in> set (candidates Manila
        \<lparr>employment_status = Some ''self-employed'', philhealth_number = Some ''010000000007'',
          sss_number = Some ''3412345678'', pagibig_number = Some ''121234567890''\<rparr>
        1755648000000). is_quarterly_option q)
   \<and> (\<exists>p \<in> set (candidates Manila
        \<lparr>employment_status = Some ''self-employed'', philhealth_number = Some ''010000000007'',
          sss_number = Some ''3412345678'', pagibig_number = Some ''121234567890''\<rparr>
        1755648000000). is_pagibig_primary p \<and> membershipNumber p = ''121234567890'')"
proof -
  let ?h = Manila
  let ?u = "\<lparr>employment_status = Some ''self-employed'', philhealth_number = Some ''010000000007'',
          sss_number = Some ''3412345678'', pagibig_number = Some ''121234567890''\<rparr>"
  let ?q = "\<lparr>agency = ''Pag-IBIG'',
       description = ''Pag-IBIG contribution payment (Quarterly Option) - Form MDF, POF'',
       dueDate = ''2025-10-01'', membershipNumber = ''121234567890''\<rparr>"
  have n: "length (computeDueDates ?h ?u 1755648000000) = 4"
    by code_simp
  have q: "?q \<in> set (candidates ?h ?u 1755648000000)"
    by code_simp
  have "is_quarterly_option ?q"
    by (simp add: is_quarterly_option_def)
  with q at_most_one_two_entries_per_agency [of ?h ?u 1755648000000] n show ?thesis
    by fastforce
qed

end
